theory Spec2Isabelle
  imports Complex_Main "HOL-Library.AList"
begin

section \<open>Forward projection: \<open>project_portfolio_with_taxes\<close>\<close>

text \<open>
  Python floats are read as real numbers throughout: rounding and overflow are not
  followed. The forward projector only adds, subtracts and multiplies, so every
  intermediate value of it is a real number.

  Dictionaries whose iteration order the code relies on are association lists with
  distinct keys; \<open>d.get(k, default)\<close> is \<open>dict_get\<close>.
\<close>

definition dict_get :: "(string \<times> real) list \<Rightarrow> string \<Rightarrow> real \<Rightarrow> real" where
  "dict_get d k dflt = (case map_of d k of None \<Rightarrow> dflt | Some v \<Rightarrow> v)"

text \<open>
  \<^verbatim>\<open>sum(asset_class_allocation.get(asset_class, 0) * growth_rate
      for asset_class, growth_rate in growth_rates.items())\<close>
\<close>

definition weighted_annual_return_of ::
  "(string \<times> real) list \<Rightarrow> (string \<times> real) list \<Rightarrow> real" where
  "weighted_annual_return_of asset_class_allocation growth_rates =
     sum_list (map (\<lambda>(asset_class, growth_rate).
                      dict_get asset_class_allocation asset_class 0 * growth_rate)
                   growth_rates)"

text \<open>One entry of \<open>yearly_projections\<close>, with the keys of the dict literal.\<close>

record yearly_projection =
  year :: int
  starting_value :: real
  cash_flow :: real
  after_cash_flow :: real
  growth :: real
  taxes :: real
  fees :: real
  ending_value :: real
  annual_return :: real
  deferred_tax_liability :: real

text \<open>The dict returned by \<open>project_portfolio_with_taxes\<close>.\<close>

record projection_result =
  weighted_annual_return :: real
  final_portfolio_value :: real
  total_fees :: real
  total_taxes :: real
  total_cash_flows :: real
  result_deferred_tax_liability :: real
  account_type :: string
  yearly_projections :: "yearly_projection list"

text \<open>The local variables that the loop reads and assigns.\<close>

record loop_state =
  st_yearly_projections :: "yearly_projection list"
  st_portfolio_value :: real
  st_total_fees :: real
  st_total_taxes :: real
  st_total_cash_flows :: real
  st_total_contributions :: real
  st_deferred_tax_liability :: real

definition initial_state :: "real \<Rightarrow> loop_state" where
  "initial_state initial_value =
     \<lparr> st_yearly_projections = [],
       st_portfolio_value = initial_value,
       st_total_fees = 0,
       st_total_taxes = 0,
       st_total_cash_flows = 0,
       st_total_contributions = initial_value,
       st_deferred_tax_liability = 0 \<rparr>"

text \<open>
  One pass through the body of \<open>for year in range(1, years + 1)\<close>. The arguments
  before \<open>yr\<close> are the values fixed ahead of the loop.
\<close>

definition year_body ::
  "real \<Rightarrow> real \<Rightarrow> real \<Rightarrow> real \<Rightarrow> bool \<Rightarrow> bool \<Rightarrow> int \<Rightarrow> loop_state \<Rightarrow> loop_state" where
  "year_body weighted_return total_fee_rate annual_cash_flow tax_rate is_taxable
       is_tax_deferred yr s =
     (let starting = st_portfolio_value s;
          after_cf = starting + annual_cash_flow;
          total_cash_flows' = st_total_cash_flows s + annual_cash_flow;
          total_contributions' =
            (if is_tax_deferred \<and> annual_cash_flow > 0
             then st_total_contributions s + annual_cash_flow
             else st_total_contributions s);
          grow = after_cf * weighted_return;
          after_growth = after_cf + grow;
          tax = (if is_taxable \<and> tax_rate > 0 then grow * tax_rate else 0);
          after_taxes = after_growth - tax;
          total_taxes' = st_total_taxes s + tax;
          fee = after_taxes * total_fee_rate;
          ending = after_taxes - fee;
          total_fees' = st_total_fees s + fee;
          deferred = (if is_tax_deferred then ending * tax_rate else 0)
      in \<lparr> st_yearly_projections = st_yearly_projections s @
             [\<lparr> year = yr,
                starting_value = starting,
                cash_flow = annual_cash_flow,
                after_cash_flow = after_cf,
                growth = grow,
                taxes = tax,
                fees = fee,
                ending_value = ending,
                annual_return = weighted_return,
                deferred_tax_liability = deferred \<rparr>],
           st_portfolio_value = ending,
           st_total_fees = total_fees',
           st_total_taxes = total_taxes',
           st_total_cash_flows = total_cash_flows',
           st_total_contributions = total_contributions',
           st_deferred_tax_liability = deferred \<rparr>)"

text \<open>
  The loop over \<open>range(1, years + 1)\<close>: the years \<open>1, \<dots>, years\<close> in order, none when
  \<open>years < 1\<close>.
\<close>

definition run_years ::
  "real \<Rightarrow> real \<Rightarrow> real \<Rightarrow> real \<Rightarrow> bool \<Rightarrow> bool \<Rightarrow> int list \<Rightarrow> loop_state \<Rightarrow> loop_state" where
  "run_years weighted_return total_fee_rate annual_cash_flow tax_rate is_taxable
       is_tax_deferred yrs s =
     fold (year_body weighted_return total_fee_rate annual_cash_flow tax_rate
             is_taxable is_tax_deferred) yrs s"

definition project_portfolio_with_taxes ::
  "(string \<times> real) list \<Rightarrow> (string \<times> real) list \<Rightarrow> real \<Rightarrow> real \<Rightarrow> real \<Rightarrow> real
     \<Rightarrow> string \<Rightarrow> int \<Rightarrow> projection_result" where
  "project_portfolio_with_taxes asset_class_allocation growth_rates total_fee_rate
       initial_value annual_cash_flow tax_rate acct years =
     (let weighted_return = weighted_annual_return_of asset_class_allocation growth_rates;
          is_taxable = (acct = ''Brokerage'');
          is_tax_deferred = (acct = ''Traditional IRA'');
          s = run_years weighted_return total_fee_rate annual_cash_flow tax_rate
                is_taxable is_tax_deferred [1..years] (initial_state initial_value)
      in \<lparr> weighted_annual_return = weighted_return,
           final_portfolio_value = st_portfolio_value s,
           total_fees = st_total_fees s,
           total_taxes = st_total_taxes s,
           total_cash_flows = st_total_cash_flows s,
           result_deferred_tax_liability = st_deferred_tax_liability s,
           account_type = acct,
           yearly_projections = st_yearly_projections s \<rparr>)"

text \<open>
  The exceptions of the Python code that this development follows.
\<close>

datatype py_error = KeyError | IndexError | ZeroDivisionError | TypeError

text \<open>
  The outcome of a call of \<open>project_portfolio_with_taxes\<close>. The body has no
  \<open>raise\<close>, checks none of its arguments, and uses no operation that raises on
  numbers (no division, no indexing, no key lookup without a default), so every call
  returns its dict.
\<close>

definition call_project ::
  "(string \<times> real) list \<Rightarrow> (string \<times> real) list \<Rightarrow> real \<Rightarrow> real \<Rightarrow> real \<Rightarrow> real
     \<Rightarrow> string \<Rightarrow> int \<Rightarrow> py_error + projection_result" where
  "call_project asset_class_allocation growth_rates total_fee_rate initial_value
       annual_cash_flow tax_rate acct years =
     Inr (project_portfolio_with_taxes asset_class_allocation growth_rates total_fee_rate
            initial_value annual_cash_flow tax_rate acct years)"

subsection \<open>Predicates on ledgers\<close>

text \<open>
  \<open>record_ok\<close>: what a ledger entry records about its own year, with the values fixed
  ahead of the loop as parameters. \<open>chains_from v\<close>: the first entry starts at \<open>v\<close> and
  every entry starts where the one before it ended; \<open>closing v\<close> is the value the ledger
  ends at.
\<close>

definition record_ok :: "real \<Rightarrow> real \<Rightarrow> real \<Rightarrow> real \<Rightarrow> bool \<Rightarrow> bool \<Rightarrow> yearly_projection \<Rightarrow> bool" where
  "record_ok w f c t b d r \<longleftrightarrow>
     cash_flow r = c \<and>
     after_cash_flow r = starting_value r + c \<and>
     growth r = after_cash_flow r * w \<and>
     taxes r = (if b \<and> t > 0 then growth r * t else 0) \<and>
     fees r = (after_cash_flow r + growth r - taxes r) * f \<and>
     ending_value r = after_cash_flow r + growth r - taxes r - fees r \<and>
     annual_return r = w \<and>
     deferred_tax_liability r = (if d then ending_value r * t else 0)"

fun chains_from :: "real \<Rightarrow> yearly_projection list \<Rightarrow> bool" where
  "chains_from v [] = True"
| "chains_from v (r # rs) = (starting_value r = v \<and> chains_from (ending_value r) rs)"

fun closing :: "real \<Rightarrow> yearly_projection list \<Rightarrow> real" where
  "closing v [] = v"
| "closing v (r # rs) = closing (ending_value r) rs"

section \<open>Aggregation of projections: the loop of \<open>analyze_aggregate_portfolio\<close>\<close>

text \<open>
  The part of \<open>analyze_aggregate_portfolio\<close> that projects each portfolio of the request
  and adds the projections up. A portfolio of the request (\<open>SinglePortfolioData\<close>) has
  the fields below; the field names carry the prefix \<open>p_\<close> of the loop variable.
\<close>

record single_portfolio_data =
  p_holdings :: "(string \<times> real) list"
  p_advisory_fee :: real
  p_asset_class_overrides :: "(string \<times> string) list option"
  p_account_type :: string
  p_annual_cash_flow :: real

text \<open>
  The class \<open>Portfolio\<close> (module \<open>analytics.portfolio\<close>) is not part of the sources at
  hand. The loop reads three attributes of a \<open>Portfolio\<close> object (here with the prefix
  \<open>pf_\<close>); the constructor is a parameter \<open>mk_portfolio\<close> of the model that yields them
  from its four arguments. The table \<open>growth_rates\<close> of \<open>analytics.models\<close> is a parameter
  as well.
\<close>

record portfolio =
  pf_asset_class_allocation :: "(string \<times> real) list"
  pf_weighted_avg_er :: real
  pf_advisory_fee :: real

type_synonym portfolio_class =
  "(string \<times> real) list \<Rightarrow> string \<Rightarrow> real \<Rightarrow> (string \<times> string) list option \<Rightarrow> portfolio"

text \<open>
  \<open>p_projection\<close> of one pass of the loop: the projection of the portfolio \<open>p\<close> alone, with
  its own fee rate, initial value, cash flow and account type, over 10 years.
\<close>

definition p_projection ::
  "portfolio_class \<Rightarrow> (string \<times> real) list \<Rightarrow> real \<Rightarrow> single_portfolio_data
     \<Rightarrow> projection_result" where
  "p_projection mk_portfolio growth_rates tax_rate p =
     (let p_portfolio = mk_portfolio (p_holdings p) ''temp'' (p_advisory_fee p)
                          (p_asset_class_overrides p);
          p_total_fee_rate = pf_weighted_avg_er p_portfolio + pf_advisory_fee p_portfolio;
          p_initial_value = sum_list (map snd (p_holdings p))
      in project_portfolio_with_taxes (pf_asset_class_allocation p_portfolio) growth_rates
           p_total_fee_rate p_initial_value (p_annual_cash_flow p) tax_rate
           (p_account_type p) 10)"

text \<open>
  An entry of the aggregate's \<open>yearly_projections\<close>: the eight keys of the dict literal,
  with the prefix \<open>agg_\<close>.
\<close>

record aggregate_year =
  agg_year :: int
  agg_starting_value :: real
  agg_ending_value :: real
  agg_growth :: real
  agg_fees :: real
  agg_taxes :: real
  agg_cash_flow :: real
  agg_deferred_tax_liability :: real

text \<open>
  The dict \<open>aggregate_projections\<close> is built by a dict literal and then changed by
  assignments to its keys. It is kept as the list of its keys and values, in insertion
  order; a value is a number or the list of yearly entries.
\<close>

datatype aggregate_value = Number real | Ledger "aggregate_year list"

type_synonym aggregate = "(string \<times> aggregate_value) list"

definition initial_row :: "yearly_projection \<Rightarrow> aggregate_year" where
  "initial_row yp =
     \<lparr> agg_year = year yp,
       agg_starting_value = starting_value yp,
       agg_ending_value = ending_value yp,
       agg_growth = growth yp,
       agg_fees = fees yp,
       agg_taxes = taxes yp,
       agg_cash_flow = cash_flow yp,
       agg_deferred_tax_liability = deferred_tax_liability yp \<rparr>"

definition initial_aggregate :: "projection_result \<Rightarrow> aggregate" where
  "initial_aggregate p_proj =
     [(''weighted_annual_return'', Number (weighted_annual_return p_proj)),
      (''final_portfolio_value'', Number (final_portfolio_value p_proj)),
      (''total_fees'', Number (total_fees p_proj)),
      (''total_taxes'', Number (total_taxes p_proj)),
      (''total_cash_flows'', Number (total_cash_flows p_proj)),
      (''deferred_tax_liability'', Number (result_deferred_tax_liability p_proj)),
      (''yearly_projections'', Ledger (map initial_row (yearly_projections p_proj)))]"

text \<open>\<open>d[k] += x\<close> on a number; a missing key raises \<open>KeyError\<close>.\<close>

definition add_number :: "string \<Rightarrow> real \<Rightarrow> aggregate \<Rightarrow> py_error + aggregate" where
  "add_number k x agg =
     (case map_of agg k of
        None \<Rightarrow> Inl KeyError
      | Some (Number v) \<Rightarrow> Inr (AList.update k (Number (v + x)) agg)
      | Some (Ledger rows) \<Rightarrow> Inl TypeError)"

definition add_row :: "aggregate_year \<Rightarrow> yearly_projection \<Rightarrow> aggregate_year" where
  "add_row row yp =
     row \<lparr> agg_starting_value := agg_starting_value row + starting_value yp,
           agg_ending_value := agg_ending_value row + ending_value yp,
           agg_growth := agg_growth row + growth yp,
           agg_fees := agg_fees row + fees yp,
           agg_taxes := agg_taxes row + taxes yp,
           agg_cash_flow := agg_cash_flow row + cash_flow yp,
           agg_deferred_tax_liability :=
             agg_deferred_tax_liability row + deferred_tax_liability yp \<rparr>"

text \<open>
  \<^verbatim>\<open>for i, yp in enumerate(p_projection['yearly_projections']):
      if i < len(aggregate_projections['yearly_projections']): ...\<close>

  The entries at the positions that both lists have are added; further entries of the
  aggregate stay, further entries of the projection are passed over.
\<close>

fun add_rows :: "aggregate_year list \<Rightarrow> yearly_projection list \<Rightarrow> aggregate_year list" where
  "add_rows [] yps = []"
| "add_rows rows [] = rows"
| "add_rows (row # rows) (yp # yps) = add_row row yp # add_rows rows yps"

definition add_ledger :: "yearly_projection list \<Rightarrow> aggregate \<Rightarrow> py_error + aggregate" where
  "add_ledger yps agg =
     (case map_of agg ''yearly_projections'' of
        None \<Rightarrow> Inl KeyError
      | Some (Number v) \<Rightarrow> Inl TypeError
      | Some (Ledger rows) \<Rightarrow>
          Inr (AList.update ''yearly_projections'' (Ledger (add_rows rows yps)) agg))"

text \<open>Sequencing of two steps of which the first may raise.\<close>

definition and_then :: "py_error + 'a \<Rightarrow> ('a \<Rightarrow> py_error + 'b) \<Rightarrow> py_error + 'b" where
  "and_then m f = (case m of Inl e \<Rightarrow> Inl e | Inr x \<Rightarrow> f x)"

text \<open>The \<open>else\<close> branch: a further projection is added to the aggregate.\<close>

definition add_projection :: "aggregate \<Rightarrow> projection_result \<Rightarrow> py_error + aggregate" where
  "add_projection agg p_proj =
     and_then (add_number ''final_portfolio_value'' (final_portfolio_value p_proj) agg) (\<lambda>agg.
     and_then (add_number ''total_fees'' (total_fees p_proj) agg) (\<lambda>agg.
     and_then (add_number ''total_taxes'' (total_taxes p_proj) agg) (\<lambda>agg.
     and_then (add_number ''total_cash_flows'' (total_cash_flows p_proj) agg) (\<lambda>agg.
     and_then (add_number ''deferred_tax_liability''
                 (result_deferred_tax_liability p_proj) agg) (\<lambda>agg.
     add_ledger (yearly_projections p_proj) agg)))))"

text \<open>
  The loop \<open>for p in request.portfolios\<close>, from the value \<open>aggregate_projections\<close> has
  before a pass (\<open>None\<close> at the start) to the one it has after the last pass. A portfolio
  without holdings is passed over.
\<close>

fun aggregate_loop ::
  "portfolio_class \<Rightarrow> (string \<times> real) list \<Rightarrow> real \<Rightarrow> single_portfolio_data list
     \<Rightarrow> aggregate option \<Rightarrow> py_error + aggregate option" where
  "aggregate_loop mk_portfolio growth_rates tax_rate [] aggregate_projections =
     Inr aggregate_projections"
| "aggregate_loop mk_portfolio growth_rates tax_rate (p # ps) aggregate_projections =
     (if p_holdings p = [] then
        aggregate_loop mk_portfolio growth_rates tax_rate ps aggregate_projections
      else
        (case aggregate_projections of
           None \<Rightarrow>
             aggregate_loop mk_portfolio growth_rates tax_rate ps
               (Some (initial_aggregate (p_projection mk_portfolio growth_rates tax_rate p)))
         | Some agg \<Rightarrow>
             and_then (add_projection agg (p_projection mk_portfolio growth_rates tax_rate p))
               (\<lambda>agg'. aggregate_loop mk_portfolio growth_rates tax_rate ps (Some agg'))))"

section \<open>Historical returns: \<open>calculate_portfolio_returns\<close>\<close>

text \<open>
  Prices, weights, fee rates and expense ratios are finite real numbers. Where the code
  divides or raises to a power the result can leave the real numbers, and the model says
  so: a cell of a pandas object is an \<open>npfloat\<close>, a finite number, an infinity or \<open>NaN\<close>.
\<close>

datatype npfloat = Fin real | PInf | NInf | NaN

text \<open>Division of two finite floats in numpy: no exception, an infinity or \<open>NaN\<close>.\<close>

definition np_div :: "real \<Rightarrow> real \<Rightarrow> npfloat" where
  "np_div x y =
     (if y \<noteq> 0 then Fin (x / y)
      else if 0 < x then PInf
      else if x < 0 then NInf
      else NaN)"

text \<open>A float minus a finite number.\<close>

fun np_minus :: "npfloat \<Rightarrow> real \<Rightarrow> npfloat" where
  "np_minus (Fin x) y = Fin (x - y)"
| "np_minus PInf y = PInf"
| "np_minus NInf y = NInf"
| "np_minus NaN y = NaN"

text \<open>
  \<open>x ** y\<close> where it is a real number: a positive base, the base 0 with an exponent that
  is not negative, or a negative base with a whole exponent.
\<close>

definition real_pow :: "real \<Rightarrow> real \<Rightarrow> real option" where
  "real_pow x y =
     (if 0 < x then Some (x powr y)
      else if x = 0 then (if 0 < y then Some 0 else if y = 0 then Some 1 else None)
      else if y = of_int \<lfloor>y\<rfloor> then Some (x powi \<lfloor>y\<rfloor>)
      else None)"

text \<open>
  \<open>x ** y\<close> on Python floats: 0 to a negative power raises \<open>ZeroDivisionError\<close>; a
  negative base with a fractional exponent gives a complex number, which is \<open>None\<close> here.
\<close>

definition py_pow :: "real \<Rightarrow> real \<Rightarrow> py_error + real option" where
  "py_pow x y = (if x = 0 \<and> y < 0 then Inl ZeroDivisionError else Inr (real_pow x y))"

text \<open>
  A value of the portfolio return series and of the fee factors is a \<open>real option\<close>:
  \<open>None\<close> is a value that is not a finite real number (\<open>NaN\<close>, an infinity or a complex
  number). Sums, differences and products with such a value are such a value again.
\<close>

definition f_add :: "real option \<Rightarrow> real option \<Rightarrow> real option" where
  "f_add a b = (case (a, b) of (Some x, Some y) \<Rightarrow> Some (x + y) | _ \<Rightarrow> None)"

definition f_sub :: "real option \<Rightarrow> real option \<Rightarrow> real option" where
  "f_sub a b = (case (a, b) of (Some x, Some y) \<Rightarrow> Some (x - y) | _ \<Rightarrow> None)"

definition f_mul :: "real option \<Rightarrow> real option \<Rightarrow> real option" where
  "f_mul a b = (case (a, b) of (Some x, Some y) \<Rightarrow> Some (x * y) | _ \<Rightarrow> None)"

text \<open>\<open>base ** y\<close> where the base is itself the result of a power.\<close>

definition py_pow_of :: "real option \<Rightarrow> real \<Rightarrow> py_error + real option" where
  "py_pow_of base y = (case base of None \<Rightarrow> Inr None | Some x \<Rightarrow> py_pow x y)"

text \<open>
  A price \<open>DataFrame\<close>: the tickers of its columns (\<open>prices.columns\<close>) and its rows in
  date order (\<open>prices.values\<close>), each row with one price per column.
\<close>

record dataframe =
  df_columns :: "string list"
  df_values :: "real list list"

text \<open>
  \<open>prices.pct_change()\<close>: the first row is \<open>NaN\<close> in every column, a later row is the
  row divided by the row before it, minus 1. \<open>dropna()\<close> keeps the rows without a
  \<open>NaN\<close>.
\<close>

fun pct_change :: "real list list \<Rightarrow> npfloat list list" where
  "pct_change [] = []"
| "pct_change (first # later) =
     map (\<lambda>price. NaN) first #
     map (\<lambda>(previous, current).
            map (\<lambda>(p, c). np_minus (np_div c p) 1) (zip previous current))
         (zip (first # later) later)"

definition dropna :: "npfloat list list \<Rightarrow> npfloat list list" where
  "dropna frame = filter (\<lambda>row. NaN \<notin> set row) frame"

text \<open>
  \<^verbatim>\<open>np.array([weights[col] for col in returns.columns])\<close>: a column that is not a key
  of \<open>weights\<close> raises \<open>KeyError\<close>.
\<close>

fun weights_array_of :: "(string \<times> real) list \<Rightarrow> string list \<Rightarrow> py_error + real list" where
  "weights_array_of weights [] = Inr []"
| "weights_array_of weights (col # cols) =
     (case map_of weights col of
        None \<Rightarrow> Inl KeyError
      | Some w \<Rightarrow> and_then (weights_array_of weights cols) (\<lambda>ws. Inr (w # ws)))"

text \<open>One entry of \<open>returns.dot(weights_array)\<close>: the row times the weights.\<close>

fun dot :: "npfloat list \<Rightarrow> real list \<Rightarrow> real option" where
  "dot (Fin x # cells) (w # ws) = f_add (Some (x * w)) (dot cells ws)"
| "dot (cell # cells) (w # ws) = None"
| "dot cells ws = Some 0"

text \<open>Lines 5 to 8: the weighted return of every period.\<close>

definition weighted_returns :: "dataframe \<Rightarrow> (string \<times> real) list \<Rightarrow> py_error + real option list" where
  "weighted_returns prices weights =
     (let returns = dropna (pct_change (df_values prices))
      in and_then (weights_array_of weights (df_columns prices)) (\<lambda>weights_array.
           Inr (map (\<lambda>row. dot row weights_array) returns)))"

text \<open>
  \<open>(1 + port_returns) * factor - 1\<close>: the expression \<open>layer factor\<close> on the return of
  every period.
\<close>

definition layer :: "real option \<Rightarrow> real option \<Rightarrow> real option" where
  "layer factor r = f_sub (f_mul (f_add (Some 1) r) factor) (Some 1)"

definition deduct :: "real option \<Rightarrow> real option list \<Rightarrow> real option list" where
  "deduct factor port_returns = map (layer factor) port_returns"

text \<open>
  The loop \<open>for ticker, weight in weights.items()\<close>, from the series before a pass to
  the series after the last one.
\<close>

fun expense_ratio_loop ::
  "(string \<times> real) list \<Rightarrow> (string \<times> real) list \<Rightarrow> real option list
     \<Rightarrow> py_error + real option list" where
  "expense_ratio_loop expense_ratios [] port_returns = Inr port_returns"
| "expense_ratio_loop expense_ratios ((ticker, weight) # items) port_returns =
     (let er = dict_get expense_ratios ticker 0 in
      if er > 0 then
        and_then (py_pow (1 - er) (1 / 252)) (\<lambda>daily_er.
        and_then (py_pow_of daily_er weight) (\<lambda>factor.
        expense_ratio_loop expense_ratios items (deduct factor port_returns)))
      else expense_ratio_loop expense_ratios items port_returns)"

text \<open>
  Lines 10 to 22: the deduction of the fees from a return series. \<open>if expense_ratios:\<close>
  holds for a dict that is neither \<open>None\<close> nor empty.
\<close>

definition deduct_fees ::
  "real option list \<Rightarrow> (string \<times> real) list \<Rightarrow> real \<Rightarrow> (string \<times> real) list option
     \<Rightarrow> py_error + real option list" where
  "deduct_fees port_returns weights advisory_fee expense_ratios =
     and_then (py_pow (1 - advisory_fee) (1 / 252)) (\<lambda>daily_advisory.
       let port_returns = deduct daily_advisory port_returns in
       (case expense_ratios of
          None \<Rightarrow> Inr port_returns
        | Some [] \<Rightarrow> Inr port_returns
        | Some ers \<Rightarrow> expense_ratio_loop ers weights port_returns))"

definition calculate_portfolio_returns ::
  "dataframe \<Rightarrow> (string \<times> real) list \<Rightarrow> real \<Rightarrow> (string \<times> real) list option
     \<Rightarrow> py_error + real option list" where
  "calculate_portfolio_returns prices weights advisory_fee expense_ratios =
     and_then (weighted_returns prices weights) (\<lambda>port_returns.
       deduct_fees port_returns weights advisory_fee expense_ratios)"

section \<open>Performance statistics: \<open>performance_stats\<close>\<close>

text \<open>
  The return series handed to \<open>performance_stats\<close> is a list of finite numbers. The
  statistics are floats of numpy: signed zeros are not told apart.
\<close>

text \<open>\<open>.cumprod()\<close> and \<open>.cummax()\<close>: running product and running maximum.\<close>

fun cumprod_from :: "real \<Rightarrow> real list \<Rightarrow> real list" where
  "cumprod_from acc [] = []"
| "cumprod_from acc (x # xs) = acc * x # cumprod_from (acc * x) xs"

definition cumprod :: "real list \<Rightarrow> real list" where
  "cumprod xs = cumprod_from 1 xs"

fun cummax_from :: "real \<Rightarrow> real list \<Rightarrow> real list" where
  "cummax_from m [] = []"
| "cummax_from m (c # cs) = max m c # cummax_from (max m c) cs"

definition cummax :: "real list \<Rightarrow> real list" where
  "cummax cs = (case cs of [] \<Rightarrow> [] | c # rest \<Rightarrow> c # cummax_from c rest)"

text \<open>
  \<open>x ** y\<close> on a float of numpy: no exception; 0 to a negative power is infinite, a
  negative base with a fractional exponent gives \<open>NaN\<close>.
\<close>

definition np_power :: "real \<Rightarrow> real \<Rightarrow> npfloat" where
  "np_power x y =
     (case real_pow x y of Some v \<Rightarrow> Fin v | None \<Rightarrow> if x = 0 then PInf else NaN)"

text \<open>A float times a positive finite number.\<close>

fun np_scale :: "npfloat \<Rightarrow> real \<Rightarrow> npfloat" where
  "np_scale (Fin x) y = Fin (x * y)"
| "np_scale other y = other"

text \<open>Division of two floats of numpy.\<close>

fun np_divide :: "npfloat \<Rightarrow> npfloat \<Rightarrow> npfloat" where
  "np_divide (Fin x) (Fin y) = np_div x y"
| "np_divide NaN y = NaN"
| "np_divide x NaN = NaN"
| "np_divide (Fin x) y = Fin 0"
| "np_divide PInf (Fin y) = (if 0 \<le> y then PInf else NInf)"
| "np_divide NInf (Fin y) = (if 0 \<le> y then NInf else PInf)"
| "np_divide x y = NaN"

text \<open>\<open>.std()\<close> of pandas: the sample standard deviation, \<open>NaN\<close> below two values.\<close>

definition std :: "real list \<Rightarrow> npfloat" where
  "std xs =
     (let n = length xs in
      if n < 2 then NaN
      else let mean = sum_list xs / real n
           in Fin (sqrt (sum_list (map (\<lambda>x. (x - mean)\<^sup>2) xs) / real (n - 1))))"

text \<open>\<open>.min()\<close> of pandas: the least value that is not \<open>NaN\<close>, \<open>NaN\<close> when there is none.\<close>

fun np_le :: "npfloat \<Rightarrow> npfloat \<Rightarrow> bool" where
  "np_le NaN y = False"
| "np_le x NaN = False"
| "np_le NInf y = True"
| "np_le x PInf = True"
| "np_le (Fin x) (Fin y) = (x \<le> y)"
| "np_le x y = False"

definition np_min :: "npfloat \<Rightarrow> npfloat \<Rightarrow> npfloat" where
  "np_min x y = (if np_le x y then x else y)"

definition nanmin :: "npfloat list \<Rightarrow> npfloat" where
  "nanmin xs = (case filter (\<lambda>x. x \<noteq> NaN) xs of [] \<Rightarrow> NaN | y # ys \<Rightarrow> fold np_min ys y)"

text \<open>The dict of statistics, with the keys in lower case.\<close>

record performance =
  total_return :: real
  annualized_return :: npfloat
  volatility :: npfloat
  sharpe_ratio :: npfloat
  max_drawdown :: npfloat

text \<open>
  \<open>cumulative.iloc[-1]\<close> raises \<open>IndexError\<close> on an empty series, ahead of the division
  by \<open>len(port_returns)\<close>.
\<close>

definition performance_stats :: "real list \<Rightarrow> real \<Rightarrow> py_error + performance \<times> real list" where
  "performance_stats port_returns risk_free =
     (let cumulative = cumprod (map (\<lambda>r. 1 + r) port_returns) in
      if cumulative = [] then Inl IndexError
      else
        let total = last cumulative - 1;
            annualized =
              np_minus (np_power (1 + total) (252 / real (length port_returns))) 1;
            vol = np_scale (std port_returns) (sqrt 252);
            sharpe = np_divide (np_minus annualized risk_free) vol;
            max_dd = nanmin (map (\<lambda>(c, m). np_minus (np_div c m) 1)
                               (zip cumulative (cummax cumulative)))
        in Inr (\<lparr> total_return = total,
                  annualized_return = annualized,
                  volatility = vol,
                  sharpe_ratio = sharpe,
                  max_drawdown = max_dd \<rparr>,
                cumulative))"

subsection \<open>Auxiliary notions for the statistics\<close>

text \<open>
  The drawdown series \<open>cumulative / cumulative.cummax() - 1\<close> from a list of cumulative
  values and the list of their peaks.
\<close>

definition drawdowns :: "real list \<Rightarrow> real list \<Rightarrow> npfloat list" where
  "drawdowns cumulative peaks = map (\<lambda>(c, m). np_minus (np_div c m) 1) (zip cumulative peaks)"

subsection \<open>Auxiliary notions for the fee deduction\<close>




subsection \<open>Auxiliary notions for the aggregate\<close>

text \<open>
  \<open>aggregate_of\<close> is the aggregate dict with given values under its seven keys;
  \<open>add_all_rows\<close> adds the ledgers of several projections to a list of entries, one
  after the other; \<open>has_holdings\<close> is the test of the loop; \<open>ledger_of\<close> reads the yearly
  entries off the outcome of the loop (\<open>[]\<close> when there is no aggregate).
\<close>

definition aggregate_of ::
  "real \<Rightarrow> real \<Rightarrow> real \<Rightarrow> real \<Rightarrow> real \<Rightarrow> real \<Rightarrow> aggregate_year list \<Rightarrow> aggregate" where
  "aggregate_of w f tf tt tc d rows =
     [(''weighted_annual_return'', Number w),
      (''final_portfolio_value'', Number f),
      (''total_fees'', Number tf),
      (''total_taxes'', Number tt),
      (''total_cash_flows'', Number tc),
      (''deferred_tax_liability'', Number d),
      (''yearly_projections'', Ledger rows)]"

definition add_all_rows :: "aggregate_year list \<Rightarrow> projection_result list \<Rightarrow> aggregate_year list" where
  "add_all_rows rows projs = fold (\<lambda>p_proj rows. add_rows rows (yearly_projections p_proj)) projs rows"

definition has_holdings :: "single_portfolio_data \<Rightarrow> bool" where
  "has_holdings p \<longleftrightarrow> p_holdings p \<noteq> []"

definition ledger_of :: "py_error + aggregate option \<Rightarrow> aggregate_year list" where
  "ledger_of outcome =
     (case outcome of
        Inr (Some agg) \<Rightarrow>
          (case map_of agg ''yearly_projections'' of Some (Ledger rows) \<Rightarrow> rows | _ \<Rightarrow> [])
      | _ \<Rightarrow> [])"

text \<open>
  Inputs for the examples: a stand-in for the class \<open>Portfolio\<close> that puts a portfolio
  in the asset class of its first override, in \<open>Equity\<close> when it has none, without fund
  expenses; two portfolios with holdings and one without holdings that has a cash flow.
\<close>

definition example_portfolio_class :: portfolio_class where
  "example_portfolio_class holdings name fee overrides =
     \<lparr> pf_asset_class_allocation =
         (case overrides of Some ((ticker, asset_class) # _) \<Rightarrow> [(asset_class, 1)]
          | _ \<Rightarrow> [(''Equity'', 1)]),
       pf_weighted_avg_er = 0, pf_advisory_fee = fee \<rparr>"

definition example_a :: single_portfolio_data where
  "example_a =
     \<lparr> p_holdings = [(''SPY'', 100)], p_advisory_fee = 1 / 100,
       p_asset_class_overrides = None, p_account_type = ''Brokerage'',
       p_annual_cash_flow = 5 \<rparr>"

definition example_b :: single_portfolio_data where
  "example_b =
     \<lparr> p_holdings = [(''VOO'', 50)], p_advisory_fee = 0,
       p_asset_class_overrides = Some [(''VOO'', ''Bonds'')],
       p_account_type = ''Traditional IRA'',
       p_annual_cash_flow = 0 \<rparr>"

definition example_c :: single_portfolio_data where
  "example_c =
     \<lparr> p_holdings = [], p_advisory_fee = 0,
       p_asset_class_overrides = None, p_account_type = ''Roth IRA'',
       p_annual_cash_flow = 10 \<rparr>"

section \<open>Properties of the forward projection\<close>

subsection \<open>Invariants of the yearly loop\<close>

lemma closing_snoc: "closing v (rs @ [r]) = ending_value r"
  by (induction rs arbitrary: v) simp_all

lemma closing_last: "closing v rs = (if rs = [] then v else ending_value (last rs))"
  by (induction rs arbitrary: v) simp_all

lemma chains_from_snoc:
  "chains_from v (rs @ [r]) = (chains_from v rs \<and> starting_value r = closing v rs)"
  by (induction rs arbitrary: v) auto

lemma chains_from_nth:
  "chains_from v rs \<Longrightarrow> Suc k < length rs \<Longrightarrow> ending_value (rs ! k) = starting_value (rs ! Suc k)"
proof (induction rs arbitrary: v k)
  case Nil
  then show ?case by simp
next
  case (Cons r rs)
  show ?case
  proof (cases k)
    case 0
    with Cons.prems show ?thesis by (cases rs) simp_all
  next
    case (Suc j)
    with Cons.prems Cons.IH [of "ending_value r" j] show ?thesis by simp
  qed
qed

lemma chains_from_hd: "chains_from v rs \<Longrightarrow> rs \<noteq> [] \<Longrightarrow> starting_value (rs ! 0) = v"
  by (cases rs) simp_all

lemma run_years_Nil: "run_years w f c t b d [] s = s"
  by (simp add: run_years_def)

lemma run_years_snoc:
  "run_years w f c t b d (yrs @ [y]) s = year_body w f c t b d y (run_years w f c t b d yrs s)"
  by (simp add: run_years_def)

lemma year_body_ledger:
  "\<exists>r. st_yearly_projections (year_body w f c t b d y s) = st_yearly_projections s @ [r] \<and>
       record_ok w f c t b d r \<and> year r = y \<and>
       starting_value r = st_portfolio_value s \<and>
       st_portfolio_value (year_body w f c t b d y s) = ending_value r \<and>
       st_deferred_tax_liability (year_body w f c t b d y s) = deferred_tax_liability r \<and>
       st_total_fees (year_body w f c t b d y s) = st_total_fees s + fees r \<and>
       st_total_taxes (year_body w f c t b d y s) = st_total_taxes s + taxes r \<and>
       st_total_cash_flows (year_body w f c t b d y s) = st_total_cash_flows s + cash_flow r"
  by (simp add: year_body_def record_ok_def Let_def)

lemma run_years_ledger:
  "\<exists>new. st_yearly_projections (run_years w f c t b d yrs s) = st_yearly_projections s @ new \<and>
         map year new = yrs \<and>
         (\<forall>r\<in>set new. record_ok w f c t b d r) \<and>
         chains_from (st_portfolio_value s) new \<and>
         st_portfolio_value (run_years w f c t b d yrs s) = closing (st_portfolio_value s) new \<and>
         st_deferred_tax_liability (run_years w f c t b d yrs s) =
           (if new = [] then st_deferred_tax_liability s else deferred_tax_liability (last new)) \<and>
         st_total_fees (run_years w f c t b d yrs s) = st_total_fees s + sum_list (map fees new) \<and>
         st_total_taxes (run_years w f c t b d yrs s) = st_total_taxes s + sum_list (map taxes new) \<and>
         st_total_cash_flows (run_years w f c t b d yrs s) =
           st_total_cash_flows s + sum_list (map cash_flow new)"
proof (induction yrs rule: rev_induct)
  case Nil
  show ?case by (simp add: run_years_Nil)
next
  case (snoc y yrs)
  then obtain new where new:
    "st_yearly_projections (run_years w f c t b d yrs s) = st_yearly_projections s @ new"
    "map year new = yrs"
    "\<forall>r\<in>set new. record_ok w f c t b d r"
    "chains_from (st_portfolio_value s) new"
    "st_portfolio_value (run_years w f c t b d yrs s) = closing (st_portfolio_value s) new"
    "st_total_fees (run_years w f c t b d yrs s) = st_total_fees s + sum_list (map fees new)"
    "st_total_taxes (run_years w f c t b d yrs s) = st_total_taxes s + sum_list (map taxes new)"
    "st_total_cash_flows (run_years w f c t b d yrs s) =
       st_total_cash_flows s + sum_list (map cash_flow new)"
    by blast
  let ?s' = "run_years w f c t b d yrs s"
  obtain r where r:
    "st_yearly_projections (year_body w f c t b d y ?s') = st_yearly_projections ?s' @ [r]"
    "record_ok w f c t b d r" "year r = y"
    "starting_value r = st_portfolio_value ?s'"
    "st_portfolio_value (year_body w f c t b d y ?s') = ending_value r"
    "st_deferred_tax_liability (year_body w f c t b d y ?s') = deferred_tax_liability r"
    "st_total_fees (year_body w f c t b d y ?s') = st_total_fees ?s' + fees r"
    "st_total_taxes (year_body w f c t b d y ?s') = st_total_taxes ?s' + taxes r"
    "st_total_cash_flows (year_body w f c t b d y ?s') = st_total_cash_flows ?s' + cash_flow r"
    using year_body_ledger [of w f c t b d y ?s'] by blast
  show ?case
    apply (rule exI [of _ "new @ [r]"])
    using new r by (simp add: run_years_snoc chains_from_snoc closing_snoc)
qed

lemma project_ledger:
  "map year (yearly_projections
      (project_portfolio_with_taxes alloc rates fee init cf tax acct years)) = [1..years]"
  "\<forall>r\<in>set (yearly_projections
      (project_portfolio_with_taxes alloc rates fee init cf tax acct years)).
     record_ok (weighted_annual_return_of alloc rates) fee cf tax (acct = ''Brokerage'')
       (acct = ''Traditional IRA'') r"
  "chains_from init (yearly_projections
      (project_portfolio_with_taxes alloc rates fee init cf tax acct years))"
  "final_portfolio_value (project_portfolio_with_taxes alloc rates fee init cf tax acct years) =
     closing init (yearly_projections
      (project_portfolio_with_taxes alloc rates fee init cf tax acct years))"
  "result_deferred_tax_liability
      (project_portfolio_with_taxes alloc rates fee init cf tax acct years) =
     (if yearly_projections
          (project_portfolio_with_taxes alloc rates fee init cf tax acct years) = [] then 0
      else deferred_tax_liability (last (yearly_projections
          (project_portfolio_with_taxes alloc rates fee init cf tax acct years))))"
  "total_fees (project_portfolio_with_taxes alloc rates fee init cf tax acct years) =
     sum_list (map fees (yearly_projections
      (project_portfolio_with_taxes alloc rates fee init cf tax acct years)))"
  "total_taxes (project_portfolio_with_taxes alloc rates fee init cf tax acct years) =
     sum_list (map taxes (yearly_projections
      (project_portfolio_with_taxes alloc rates fee init cf tax acct years)))"
  "total_cash_flows (project_portfolio_with_taxes alloc rates fee init cf tax acct years) =
     sum_list (map cash_flow (yearly_projections
      (project_portfolio_with_taxes alloc rates fee init cf tax acct years)))"
  using run_years_ledger [of "weighted_annual_return_of alloc rates" fee cf tax
      "acct = ''Brokerage''" "acct = ''Traditional IRA''" "[1..years]" "initial_state init"]
  unfolding project_portfolio_with_taxes_def Let_def
  by (auto simp: initial_state_def)

lemma length_upto: "length [1..years] = nat years"
  by simp

lemma project_length:
  "length (yearly_projections (project_portfolio_with_taxes alloc rates fee init cf tax acct years)) = nat years"
proof -
  have "length (map year (yearly_projections
          (project_portfolio_with_taxes alloc rates fee init cf tax acct years))) = length [1..years]"
    by (simp only: project_ledger(1))
  then show ?thesis by simp
qed

lemma upto_prefix:
  "m \<le> years \<Longrightarrow> \<exists>ys. [1..years] = [1..m] @ ys"
proof (cases "1 \<le> m")
  case True
  assume "m \<le> years"
  with True have "[1..years] = [1..m] @ [m + 1..years]"
    by (intro upto_split2) simp_all
  then show ?thesis by blast
next
  case False
  then show ?thesis by simp
qed

lemma run_years_append:
  "run_years w f c t b d (xs @ ys) s = run_years w f c t b d ys (run_years w f c t b d xs s)"
  by (simp add: run_years_def)

lemma run_years_take:
  "st_yearly_projections (run_years w f c t b d xs (initial_state v)) =
     take (length xs) (st_yearly_projections (run_years w f c t b d (xs @ ys) (initial_state v)))"
proof -
  let ?s = "run_years w f c t b d xs (initial_state v)"
  obtain new where new: "st_yearly_projections ?s = st_yearly_projections (initial_state v) @ new"
    "map year new = xs"
    using run_years_ledger [of w f c t b d xs "initial_state v"] by blast
  obtain more where more:
    "st_yearly_projections (run_years w f c t b d ys ?s) = st_yearly_projections ?s @ more"
    using run_years_ledger [of w f c t b d ys ?s] by blast
  have "length new = length xs"
    using new(2) by (metis length_map)
  with new(1) more show ?thesis
    by (simp add: run_years_append initial_state_def)
qed

lemma project_take:
  assumes "m \<le> years"
  shows "yearly_projections (project_portfolio_with_taxes alloc rates fee init cf tax acct m) =
     take (nat m) (yearly_projections
        (project_portfolio_with_taxes alloc rates fee init cf tax acct years))"
proof -
  let ?run = "run_years (weighted_annual_return_of alloc rates) fee cf tax
        (acct = ''Brokerage'') (acct = ''Traditional IRA'')"
  obtain ys where ys: "[1..years] = [1..m] @ ys"
    using upto_prefix [OF assms] by blast
  have len: "length [1..m] = nat m"
    by simp
  have long: "yearly_projections
        (project_portfolio_with_taxes alloc rates fee init cf tax acct years) =
      st_yearly_projections (?run ([1..m] @ ys) (initial_state init))"
    by (simp add: project_portfolio_with_taxes_def Let_def flip: ys)
  have "yearly_projections (project_portfolio_with_taxes alloc rates fee init cf tax acct m) =
      st_yearly_projections (?run [1..m] (initial_state init))"
    by (simp add: project_portfolio_with_taxes_def Let_def)
  also have "\<dots> = take (length [1..m])
      (st_yearly_projections (?run ([1..m] @ ys) (initial_state init)))"
    by (rule run_years_take)
  also have "\<dots> = take (nat m) (yearly_projections
        (project_portfolio_with_taxes alloc rates fee init cf tax acct years))"
    by (simp only: len long)
  finally show ?thesis .
qed

subsection \<open>The per-year transition\<close>

text \<open>
  Claim C1. Every entry of the ledger records the transition of its year in the order cash
  flow, growth, taxes, fees: the cash flow is added to the starting value; the growth is the
  balance after the cash flow times the weighted annual return; taxes are the growth times
  the tax rate when the account type is \<open>Brokerage\<close> and the tax rate is positive, and
  0 otherwise; fees are the balance after taxes times the fee rate; the ending value is what
  remains. There is one entry per year. In the scenario of the specification (all in
  \<open>Equity\<close> at 7 percent, fee rate 1 percent, no tax, one year from 1.0) the entry has
  growth 0.07, taxes 0, fees 0.0107 and ending value 1.0593.
\<close>

theorem C1_year_transition:
  "(\<forall>r\<in>set (yearly_projections
        (project_portfolio_with_taxes alloc rates fee init cf tax acct years)).
      after_cash_flow r = starting_value r + cf \<and>
      growth r = after_cash_flow r * weighted_annual_return_of alloc rates \<and>
      taxes r = (if acct = ''Brokerage'' \<and> tax > 0 then growth r * tax else 0) \<and>
      fees r = (after_cash_flow r + growth r - taxes r) * fee \<and>
      ending_value r = after_cash_flow r + growth r - taxes r - fees r) \<and>
   length (yearly_projections
      (project_portfolio_with_taxes alloc rates fee init cf tax acct years)) = nat years \<and>
   yearly_projections
      (project_portfolio_with_taxes [(''Equity'', 1)] [(''Equity'', 7 / 100)] (1 / 100) 1 0 0
         ''Brokerage'' 1) =
     [\<lparr> year = 1, starting_value = 1, cash_flow = 0, after_cash_flow = 1,
        growth = 7 / 100, taxes = 0, fees = 107 / 10000, ending_value = 10593 / 10000,
        annual_return = 7 / 100, deferred_tax_liability = 0 \<rparr>]"
proof (intro conjI)
  show "\<forall>r\<in>set (yearly_projections
        (project_portfolio_with_taxes alloc rates fee init cf tax acct years)).
      after_cash_flow r = starting_value r + cf \<and>
      growth r = after_cash_flow r * weighted_annual_return_of alloc rates \<and>
      taxes r = (if acct = ''Brokerage'' \<and> tax > 0 then growth r * tax else 0) \<and>
      fees r = (after_cash_flow r + growth r - taxes r) * fee \<and>
      ending_value r = after_cash_flow r + growth r - taxes r - fees r"
    using project_ledger(2) [of alloc rates fee init cf tax acct years]
    by (simp add: record_ok_def)
  show "length (yearly_projections
      (project_portfolio_with_taxes alloc rates fee init cf tax acct years)) = nat years"
    by (rule project_length)
  show "yearly_projections
      (project_portfolio_with_taxes [(''Equity'', 1)] [(''Equity'', 7 / 100)] (1 / 100) 1 0 0
         ''Brokerage'' 1) =
     [\<lparr> year = 1, starting_value = 1, cash_flow = 0, after_cash_flow = 1,
        growth = 7 / 100, taxes = 0, fees = 107 / 10000, ending_value = 10593 / 10000,
        annual_return = 7 / 100, deferred_tax_liability = 0 \<rparr>]"
    by (simp add: project_portfolio_with_taxes_def weighted_annual_return_of_def dict_get_def
        run_years_def year_body_def initial_state_def Let_def)
qed

text \<open>
  Two years of a taxed brokerage account with contributions: the ledger is not empty and its
  last entry satisfies the transition.
\<close>

theorem C1_year_transition_witness:
  "yearly_projections
     (project_portfolio_with_taxes [(''Equity'', 1)] [(''Equity'', 7 / 100)] (1 / 100) 100 10
        (1 / 4) ''Brokerage'' 2) \<noteq> [] \<and>
   (let r = last (yearly_projections
        (project_portfolio_with_taxes [(''Equity'', 1)] [(''Equity'', 7 / 100)] (1 / 100) 100 10
           (1 / 4) ''Brokerage'' 2))
    in after_cash_flow r = starting_value r + 10 \<and>
       growth r = after_cash_flow r * (7 / 100) \<and>
       taxes r = growth r * (1 / 4) \<and>
       fees r = (after_cash_flow r + growth r - taxes r) * (1 / 100) \<and>
       ending_value r = after_cash_flow r + growth r - taxes r - fees r)"
proof -
  let ?L = "yearly_projections
     (project_portfolio_with_taxes [(''Equity'', 1)] [(''Equity'', 7 / 100)] (1 / 100) 100 10
        (1 / 4) ''Brokerage'' 2)"
  note inst = C1_year_transition [of "[(''Equity'', 1)]" "[(''Equity'', 7 / 100)]" "1 / 100"
      100 10 "1 / 4" "''Brokerage''" 2]
  from inst have "length ?L = nat 2"
    by blast
  then have ne: "?L \<noteq> []"
    by auto
  then have "last ?L \<in> set ?L"
    by (rule last_in_set)
  with inst have "after_cash_flow (last ?L) = starting_value (last ?L) + 10 \<and>
      growth (last ?L) = after_cash_flow (last ?L) *
        weighted_annual_return_of [(''Equity'', 1)] [(''Equity'', 7 / 100)] \<and>
      taxes (last ?L) = (if ''Brokerage'' = ''Brokerage'' \<and> (1 / 4 :: real) > 0
         then growth (last ?L) * (1 / 4) else 0) \<and>
      fees (last ?L) = (after_cash_flow (last ?L) + growth (last ?L) - taxes (last ?L)) * (1 / 100) \<and>
      ending_value (last ?L) =
        after_cash_flow (last ?L) + growth (last ?L) - taxes (last ?L) - fees (last ?L)"
    by blast
  moreover have "weighted_annual_return_of [(''Equity'', 1)] [(''Equity'', 7 / 100)] = 7 / 100"
    by (simp add: weighted_annual_return_of_def dict_get_def)
  ultimately show ?thesis
    using ne by (simp add: Let_def)
qed

subsection \<open>Invalid horizon and account type\<close>

text \<open>
  Claim C2, as the code has it. The function validates nothing and every call returns a
  result. With \<open>years \<le> 0\<close> the loop body never runs: the ledger is empty, the final value
  is the initial value and all totals are 0. An account type other than the three known
  ones is neither taxable nor tax deferred: the projection runs for the whole horizon and
  is the one of a Roth IRA, except for the \<open>account_type\<close> it reports.
\<close>

theorem C2_no_validation:
  "(\<exists>res. call_project alloc rates fee init cf tax acct years = Inr res) \<and>
   (years \<le> 0 \<longrightarrow>
      call_project alloc rates fee init cf tax acct years =
        Inr \<lparr> weighted_annual_return = weighted_annual_return_of alloc rates,
              final_portfolio_value = init, total_fees = 0, total_taxes = 0,
              total_cash_flows = 0, result_deferred_tax_liability = 0,
              account_type = acct, yearly_projections = [] \<rparr>) \<and>
   (acct \<noteq> ''Brokerage'' \<and> acct \<noteq> ''Roth IRA'' \<and> acct \<noteq> ''Traditional IRA'' \<longrightarrow>
      call_project alloc rates fee init cf tax acct years =
        Inr ((project_portfolio_with_taxes alloc rates fee init cf tax ''Roth IRA'' years)
               \<lparr> account_type := acct \<rparr>) \<and>
      length (yearly_projections
        (project_portfolio_with_taxes alloc rates fee init cf tax acct years)) = nat years \<and>
      (\<forall>r\<in>set (yearly_projections
          (project_portfolio_with_taxes alloc rates fee init cf tax acct years)).
         taxes r = 0 \<and> deferred_tax_liability r = 0))"
proof (intro conjI impI)
  show "\<exists>res. call_project alloc rates fee init cf tax acct years = Inr res"
    by (simp add: call_project_def)
  show "call_project alloc rates fee init cf tax acct years =
        Inr \<lparr> weighted_annual_return = weighted_annual_return_of alloc rates,
              final_portfolio_value = init, total_fees = 0, total_taxes = 0,
              total_cash_flows = 0, result_deferred_tax_liability = 0,
              account_type = acct, yearly_projections = [] \<rparr>" if "years \<le> 0"
    using that
    by (simp add: call_project_def project_portfolio_with_taxes_def run_years_def
        initial_state_def Let_def)
  assume other: "acct \<noteq> ''Brokerage'' \<and> acct \<noteq> ''Roth IRA'' \<and> acct \<noteq> ''Traditional IRA''"
  then show "call_project alloc rates fee init cf tax acct years =
        Inr ((project_portfolio_with_taxes alloc rates fee init cf tax ''Roth IRA'' years)
               \<lparr> account_type := acct \<rparr>)"
    by (simp add: call_project_def project_portfolio_with_taxes_def Let_def)
  show "length (yearly_projections
        (project_portfolio_with_taxes alloc rates fee init cf tax acct years)) = nat years"
    by (rule project_length)
  show "\<forall>r\<in>set (yearly_projections
          (project_portfolio_with_taxes alloc rates fee init cf tax acct years)).
         taxes r = 0 \<and> deferred_tax_liability r = 0"
    using other project_ledger(2) [of alloc rates fee init cf tax acct years]
    by (simp add: record_ok_def)
qed

text \<open>
  Claim C2 as stated fails: with a horizon of 0 or \<open>-3\<close> years, and with the account type
  \<open>Savings\<close>, the call returns a result instead of an error, and in the last case the
  ledger has an entry.
\<close>

theorem C2_counterexample:
  "call_project [(''Equity'', 1)] [(''Equity'', 7 / 100)] (1 / 100) 1 0 0 ''Brokerage'' 0 =
     Inr \<lparr> weighted_annual_return = 7 / 100, final_portfolio_value = 1, total_fees = 0,
           total_taxes = 0, total_cash_flows = 0, result_deferred_tax_liability = 0,
           account_type = ''Brokerage'', yearly_projections = [] \<rparr> \<and>
   call_project [(''Equity'', 1)] [(''Equity'', 7 / 100)] (1 / 100) 1 0 0 ''Brokerage'' (- 3) =
     Inr \<lparr> weighted_annual_return = 7 / 100, final_portfolio_value = 1, total_fees = 0,
           total_taxes = 0, total_cash_flows = 0, result_deferred_tax_liability = 0,
           account_type = ''Brokerage'', yearly_projections = [] \<rparr> \<and>
   call_project [(''Equity'', 1)] [(''Equity'', 7 / 100)] (1 / 100) 1 0 (1 / 5) ''Savings'' 1 =
     Inr \<lparr> weighted_annual_return = 7 / 100, final_portfolio_value = 10593 / 10000,
           total_fees = 107 / 10000, total_taxes = 0, total_cash_flows = 0,
           result_deferred_tax_liability = 0, account_type = ''Savings'',
           yearly_projections =
             [\<lparr> year = 1, starting_value = 1, cash_flow = 0, after_cash_flow = 1,
                growth = 7 / 100, taxes = 0, fees = 107 / 10000,
                ending_value = 10593 / 10000, annual_return = 7 / 100,
                deferred_tax_liability = 0 \<rparr>] \<rparr>"
  by (simp add: call_project_def project_portfolio_with_taxes_def weighted_annual_return_of_def
      dict_get_def run_years_def year_body_def initial_state_def Let_def)

text \<open>
  A horizon of \<open>-3\<close> years gives the empty ledger; the account type \<open>Savings\<close> is
  projected like a Roth IRA, here for one year without taxes.
\<close>

theorem C2_no_validation_witness:
  "call_project [(''Equity'', 1)] [(''Equity'', 7 / 100)] (1 / 100) 1 0 0 ''Brokerage'' (- 3) =
     Inr \<lparr> weighted_annual_return = 7 / 100, final_portfolio_value = 1, total_fees = 0,
           total_taxes = 0, total_cash_flows = 0, result_deferred_tax_liability = 0,
           account_type = ''Brokerage'', yearly_projections = [] \<rparr> \<and>
   call_project [(''Equity'', 1)] [(''Equity'', 7 / 100)] (1 / 100) 1 0 (1 / 5) ''Savings'' 1 =
     Inr ((project_portfolio_with_taxes [(''Equity'', 1)] [(''Equity'', 7 / 100)] (1 / 100) 1 0
             (1 / 5) ''Roth IRA'' 1) \<lparr> account_type := ''Savings'' \<rparr>) \<and>
   length (yearly_projections
     (project_portfolio_with_taxes [(''Equity'', 1)] [(''Equity'', 7 / 100)] (1 / 100) 1 0
        (1 / 5) ''Savings'' 1)) = 1 \<and>
   taxes (last (yearly_projections
     (project_portfolio_with_taxes [(''Equity'', 1)] [(''Equity'', 7 / 100)] (1 / 100) 1 0
        (1 / 5) ''Savings'' 1))) = 0"
proof -
  let ?alloc = "[(''Equity'', 1 :: real)]" and ?rates = "[(''Equity'', 7 / 100 :: real)]"
  let ?L = "yearly_projections
     (project_portfolio_with_taxes ?alloc ?rates (1 / 100) 1 0 (1 / 5) ''Savings'' 1)"
  note horizon = C2_no_validation [of ?alloc ?rates "1 / 100" 1 0 0 "''Brokerage''" "- 3",
      THEN conjunct2, THEN conjunct1, rule_format]
  note other = C2_no_validation [of ?alloc ?rates "1 / 100" 1 0 "1 / 5" "''Savings''" 1,
      THEN conjunct2, THEN conjunct2, rule_format]
  have w: "weighted_annual_return_of ?alloc ?rates = 7 / 100"
    by (simp add: weighted_annual_return_of_def dict_get_def)
  have unrecognised: "''Savings'' \<noteq> ''Brokerage'' \<and> ''Savings'' \<noteq> ''Roth IRA'' \<and>
      ''Savings'' \<noteq> ''Traditional IRA''"
    by simp
  have "call_project ?alloc ?rates (1 / 100) 1 0 0 ''Brokerage'' (- 3) =
     Inr \<lparr> weighted_annual_return = weighted_annual_return_of ?alloc ?rates,
           final_portfolio_value = 1, total_fees = 0,
           total_taxes = 0, total_cash_flows = 0, result_deferred_tax_liability = 0,
           account_type = ''Brokerage'', yearly_projections = [] \<rparr>"
    by (rule horizon) simp
  then have first: "call_project ?alloc ?rates (1 / 100) 1 0 0 ''Brokerage'' (- 3) =
     Inr \<lparr> weighted_annual_return = 7 / 100, final_portfolio_value = 1, total_fees = 0,
           total_taxes = 0, total_cash_flows = 0, result_deferred_tax_liability = 0,
           account_type = ''Brokerage'', yearly_projections = [] \<rparr>"
    by (simp only: w)
  note facts = other [OF unrecognised]
  have second: "call_project ?alloc ?rates (1 / 100) 1 0 (1 / 5) ''Savings'' 1 =
       Inr ((project_portfolio_with_taxes ?alloc ?rates (1 / 100) 1 0 (1 / 5) ''Roth IRA'' 1)
          \<lparr> account_type := ''Savings'' \<rparr>)"
    by (rule facts [THEN conjunct1])
  have "length ?L = nat 1"
    by (rule facts [THEN conjunct2, THEN conjunct1])
  then have len: "length ?L = 1"
    by simp
  then have "?L \<noteq> []"
    by auto
  then have "last ?L \<in> set ?L"
    by (rule last_in_set)
  then have "taxes (last ?L) = 0 \<and> deferred_tax_liability (last ?L) = 0"
    by (rule facts [THEN conjunct2, THEN conjunct2, rule_format])
  then have "taxes (last ?L) = 0"
    by (rule conjunct1)
  with first second len show ?thesis
    by (intro conjI)
qed

subsection \<open>Deferred tax liability\<close>

text \<open>
  Claim C5. In every entry of the ledger the deferred tax liability is that year's ending
  value times the tax rate when the account type is \<open>Traditional IRA\<close> and 0 for every
  other account type: a function of that year's ending value and the tax rate alone. The
  figure reported with the result is the one of the last year (0 when there is no year).
\<close>

theorem C5_deferred_liability:
  "(\<forall>r\<in>set (yearly_projections
        (project_portfolio_with_taxes alloc rates fee init cf tax acct years)).
      deferred_tax_liability r =
        (if acct = ''Traditional IRA'' then ending_value r * tax else 0)) \<and>
   result_deferred_tax_liability
       (project_portfolio_with_taxes alloc rates fee init cf tax acct years) =
     (if yearly_projections
           (project_portfolio_with_taxes alloc rates fee init cf tax acct years) = [] then 0
      else deferred_tax_liability (last (yearly_projections
           (project_portfolio_with_taxes alloc rates fee init cf tax acct years))))"
  using project_ledger(2,5) [of alloc rates fee init cf tax acct years]
  by (simp add: record_ok_def)

text \<open>
  The Traditional IRA scenario of the specification: one year, tax rate 0.2, liability
  0.21186.
\<close>

theorem C5_deferred_liability_witness:
  "yearly_projections
     (project_portfolio_with_taxes [(''Equity'', 1)] [(''Equity'', 7 / 100)] (1 / 100) 1 0
        (1 / 5) ''Traditional IRA'' 1) \<noteq> [] \<and>
   deferred_tax_liability (last (yearly_projections
     (project_portfolio_with_taxes [(''Equity'', 1)] [(''Equity'', 7 / 100)] (1 / 100) 1 0
        (1 / 5) ''Traditional IRA'' 1))) =
     ending_value (last (yearly_projections
     (project_portfolio_with_taxes [(''Equity'', 1)] [(''Equity'', 7 / 100)] (1 / 100) 1 0
        (1 / 5) ''Traditional IRA'' 1))) * (1 / 5) \<and>
   result_deferred_tax_liability
     (project_portfolio_with_taxes [(''Equity'', 1)] [(''Equity'', 7 / 100)] (1 / 100) 1 0
        (1 / 5) ''Traditional IRA'' 1) = 10593 / 50000"
proof -
  let ?res = "project_portfolio_with_taxes [(''Equity'', 1)] [(''Equity'', 7 / 100)] (1 / 100) 1 0
        (1 / 5) ''Traditional IRA'' 1"
  have L: "yearly_projections ?res =
     [\<lparr> year = 1, starting_value = 1, cash_flow = 0, after_cash_flow = 1,
        growth = 7 / 100, taxes = 0, fees = 107 / 10000, ending_value = 10593 / 10000,
        annual_return = 7 / 100, deferred_tax_liability = 10593 / 50000 \<rparr>]"
    by (simp add: project_portfolio_with_taxes_def weighted_annual_return_of_def dict_get_def
        run_years_def year_body_def initial_state_def Let_def)
  then have ne: "yearly_projections ?res \<noteq> []"
    by simp
  then have mem: "last (yearly_projections ?res) \<in> set (yearly_projections ?res)"
    by (rule last_in_set)
  note inst = C5_deferred_liability [of "[(''Equity'', 1)]" "[(''Equity'', 7 / 100)]" "1 / 100"
      1 0 "1 / 5" "''Traditional IRA''" 1]
  from inst mem have "deferred_tax_liability (last (yearly_projections ?res)) =
      ending_value (last (yearly_projections ?res)) * (1 / 5)"
    by auto
  moreover from inst ne have "result_deferred_tax_liability ?res =
      deferred_tax_liability (last (yearly_projections ?res))"
    by auto
  moreover have "deferred_tax_liability (last (yearly_projections ?res)) = 10593 / 50000"
    by (simp add: L)
  ultimately show ?thesis
    using ne by simp
qed

subsection \<open>The ledger is a chain\<close>

text \<open>
  Claim C7. Each entry ends at the value the next one starts at, the first entry starts at
  the initial value, the entries carry the years \<open>1, \<dots>, years\<close> in this order, and the
  ledger of a shorter horizon is the beginning of the ledger of a longer one: an entry,
  once appended, stays as it is.
\<close>

theorem C7_ledger_chains:
  "(\<forall>k. Suc k < length (yearly_projections
        (project_portfolio_with_taxes alloc rates fee init cf tax acct years)) \<longrightarrow>
      ending_value (yearly_projections
        (project_portfolio_with_taxes alloc rates fee init cf tax acct years) ! k) =
      starting_value (yearly_projections
        (project_portfolio_with_taxes alloc rates fee init cf tax acct years) ! Suc k)) \<and>
   (yearly_projections (project_portfolio_with_taxes alloc rates fee init cf tax acct years) \<noteq> [] \<longrightarrow>
      starting_value (yearly_projections
        (project_portfolio_with_taxes alloc rates fee init cf tax acct years) ! 0) = init) \<and>
   map year (yearly_projections
        (project_portfolio_with_taxes alloc rates fee init cf tax acct years)) = [1..years] \<and>
   (\<forall>m. m \<le> years \<longrightarrow>
      yearly_projections (project_portfolio_with_taxes alloc rates fee init cf tax acct m) =
      take (nat m) (yearly_projections
        (project_portfolio_with_taxes alloc rates fee init cf tax acct years)))"
proof (intro conjI allI impI)
  let ?L = "yearly_projections
        (project_portfolio_with_taxes alloc rates fee init cf tax acct years)"
  have chain: "chains_from init ?L"
    by (rule project_ledger(3))
  show "ending_value (?L ! k) = starting_value (?L ! Suc k)" if "Suc k < length ?L" for k
    using chain that by (rule chains_from_nth)
  show "starting_value (?L ! 0) = init" if "?L \<noteq> []"
    using chain that by (rule chains_from_hd)
  show "map year ?L = [1..years]"
    by (rule project_ledger(1))
  show "yearly_projections (project_portfolio_with_taxes alloc rates fee init cf tax acct m) =
      take (nat m) ?L" if "m \<le> years" for m
    using that by (rule project_take)
qed

text \<open>The chain over two years of a taxed brokerage account with contributions.\<close>

theorem C7_ledger_chains_witness:
  "Suc 0 < length (yearly_projections
      (project_portfolio_with_taxes [(''Equity'', 1)] [(''Equity'', 7 / 100)] (1 / 100) 100 10
         (1 / 4) ''Brokerage'' 2)) \<and>
   ending_value (yearly_projections
      (project_portfolio_with_taxes [(''Equity'', 1)] [(''Equity'', 7 / 100)] (1 / 100) 100 10
         (1 / 4) ''Brokerage'' 2) ! 0) =
   starting_value (yearly_projections
      (project_portfolio_with_taxes [(''Equity'', 1)] [(''Equity'', 7 / 100)] (1 / 100) 100 10
         (1 / 4) ''Brokerage'' 2) ! Suc 0) \<and>
   starting_value (yearly_projections
      (project_portfolio_with_taxes [(''Equity'', 1)] [(''Equity'', 7 / 100)] (1 / 100) 100 10
         (1 / 4) ''Brokerage'' 2) ! 0) = 100 \<and>
   yearly_projections
      (project_portfolio_with_taxes [(''Equity'', 1)] [(''Equity'', 7 / 100)] (1 / 100) 100 10
         (1 / 4) ''Brokerage'' 1) =
   take (nat 1) (yearly_projections
      (project_portfolio_with_taxes [(''Equity'', 1)] [(''Equity'', 7 / 100)] (1 / 100) 100 10
         (1 / 4) ''Brokerage'' 2))"
proof -
  let ?L = "yearly_projections
      (project_portfolio_with_taxes [(''Equity'', 1)] [(''Equity'', 7 / 100)] (1 / 100) 100 10
         (1 / 4) ''Brokerage'' 2)"
  note inst = C7_ledger_chains [of "[(''Equity'', 1)]" "[(''Equity'', 7 / 100)]" "1 / 100"
      100 10 "1 / 4" "''Brokerage''" 2]
  note chain = inst [THEN conjunct1, rule_format]
    and start = inst [THEN conjunct2, THEN conjunct1, rule_format]
    and years = inst [THEN conjunct2, THEN conjunct2, THEN conjunct1]
    and prefix = inst [THEN conjunct2, THEN conjunct2, THEN conjunct2, rule_format]
  have "length (map year ?L) = length [1..(2::int)]"
    by (simp only: years)
  then have len: "Suc 0 < length ?L"
    by simp
  then have ne: "?L \<noteq> []"
    by auto
  have "ending_value (?L ! 0) = starting_value (?L ! Suc 0)"
    using len by (rule chain)
  moreover have "starting_value (?L ! 0) = 100"
    using ne by (rule start)
  moreover have "yearly_projections
      (project_portfolio_with_taxes [(''Equity'', 1)] [(''Equity'', 7 / 100)] (1 / 100) 100 10
         (1 / 4) ''Brokerage'' 1) = take (nat 1) ?L"
    by (rule prefix) simp
  ultimately show ?thesis
    using len by (intro conjI)
qed

subsection \<open>Totals\<close>

text \<open>
  Claim C10. The totals reported with the result are the sums of the fees, of the taxes and
  of the cash flows over the ledger, and the final portfolio value is the ending value of
  the last entry, or the initial value when the ledger is empty.
\<close>

theorem C10_totals:
  "total_fees (project_portfolio_with_taxes alloc rates fee init cf tax acct years) =
     sum_list (map fees (yearly_projections
       (project_portfolio_with_taxes alloc rates fee init cf tax acct years))) \<and>
   total_taxes (project_portfolio_with_taxes alloc rates fee init cf tax acct years) =
     sum_list (map taxes (yearly_projections
       (project_portfolio_with_taxes alloc rates fee init cf tax acct years))) \<and>
   total_cash_flows (project_portfolio_with_taxes alloc rates fee init cf tax acct years) =
     sum_list (map cash_flow (yearly_projections
       (project_portfolio_with_taxes alloc rates fee init cf tax acct years))) \<and>
   final_portfolio_value (project_portfolio_with_taxes alloc rates fee init cf tax acct years) =
     (if yearly_projections
           (project_portfolio_with_taxes alloc rates fee init cf tax acct years) = [] then init
      else ending_value (last (yearly_projections
           (project_portfolio_with_taxes alloc rates fee init cf tax acct years))))"
  using project_ledger(4,6,7,8) [of alloc rates fee init cf tax acct years]
  by (simp add: closing_last)

section \<open>Properties of the aggregation\<close>

lemma initial_aggregate_of:
  "initial_aggregate p =
     aggregate_of (weighted_annual_return p) (final_portfolio_value p) (total_fees p)
       (total_taxes p) (total_cash_flows p) (result_deferred_tax_liability p)
       (map initial_row (yearly_projections p))"
  by (simp add: initial_aggregate_def aggregate_of_def)

lemma add_projection_of:
  "add_projection (aggregate_of w f tf tt tc d rows) p =
     Inr (aggregate_of w (f + final_portfolio_value p) (tf + total_fees p)
       (tt + total_taxes p) (tc + total_cash_flows p) (d + result_deferred_tax_liability p)
       (add_rows rows (yearly_projections p)))"
  by (simp add: add_projection_def aggregate_of_def add_number_def add_ledger_def and_then_def)

lemma aggregate_loop_of:
  "aggregate_loop mk gr tr ps (Some (aggregate_of w f tf tt tc d rows)) =
     Inr (Some (aggregate_of w
       (f + sum_list (map final_portfolio_value
              (map (p_projection mk gr tr) (filter has_holdings ps))))
       (tf + sum_list (map total_fees
              (map (p_projection mk gr tr) (filter has_holdings ps))))
       (tt + sum_list (map total_taxes
              (map (p_projection mk gr tr) (filter has_holdings ps))))
       (tc + sum_list (map total_cash_flows
              (map (p_projection mk gr tr) (filter has_holdings ps))))
       (d + sum_list (map result_deferred_tax_liability
              (map (p_projection mk gr tr) (filter has_holdings ps))))
       (add_all_rows rows (map (p_projection mk gr tr) (filter has_holdings ps)))))"
proof (induction ps arbitrary: f tf tt tc d rows)
  case Nil
  show ?case by (simp add: add_all_rows_def)
next
  case (Cons p ps)
  show ?case
  proof (cases "has_holdings p")
    case True
    then show ?thesis
      by (simp add: has_holdings_def add_projection_of and_then_def Cons.IH add_all_rows_def
          add.assoc)
  next
    case False
    then show ?thesis
      using Cons.IH [of f tf tt tc d rows] by (simp add: has_holdings_def)
  qed
qed

lemma aggregate_loop_empty:
  "filter has_holdings ps = [] \<Longrightarrow> aggregate_loop mk gr tr ps None = Inr None"
  by (induction ps) (simp_all add: has_holdings_def split: if_splits)

lemma aggregate_loop_start:
  "filter has_holdings ps = p # rest \<Longrightarrow>
   aggregate_loop mk gr tr ps None =
     Inr (Some (aggregate_of (weighted_annual_return (p_projection mk gr tr p))
       (sum_list (map final_portfolio_value
              (map (p_projection mk gr tr) (p # rest))))
       (sum_list (map total_fees
              (map (p_projection mk gr tr) (p # rest))))
       (sum_list (map total_taxes
              (map (p_projection mk gr tr) (p # rest))))
       (sum_list (map total_cash_flows
              (map (p_projection mk gr tr) (p # rest))))
       (sum_list (map result_deferred_tax_liability
              (map (p_projection mk gr tr) (p # rest))))
       (add_all_rows (map initial_row (yearly_projections (p_projection mk gr tr p)))
          (map (p_projection mk gr tr) rest))))"
proof (induction ps)
  case Nil
  then show ?case by simp
next
  case (Cons q ps)
  show ?case
  proof (cases "has_holdings q")
    case True
    with Cons.prems have "q = p" "filter has_holdings ps = rest"
      by simp_all
    with True show ?thesis
      by (simp add: has_holdings_def initial_aggregate_of aggregate_loop_of)
  next
    case False
    with Cons.prems have rest: "filter has_holdings ps = p # rest"
      by simp
    from False have "aggregate_loop mk gr tr (q # ps) None = aggregate_loop mk gr tr ps None"
      by (simp add: has_holdings_def)
    with Cons.IH [OF rest] show ?thesis
      by simp
  qed
qed

lemma length_add_rows: "length (add_rows rows yps) = length rows"
  by (induction rows yps rule: add_rows.induct) simp_all

lemma nth_add_rows:
  "k < length rows \<Longrightarrow> k < length yps \<Longrightarrow> add_rows rows yps ! k = add_row (rows ! k) (yps ! k)"
proof (induction rows yps arbitrary: k rule: add_rows.induct)
  case (3 row rows yp yps)
  then show ?case by (cases k) simp_all
qed simp_all

lemma length_add_all_rows: "length (add_all_rows rows projs) = length rows"
  by (induction projs arbitrary: rows) (simp_all add: add_all_rows_def length_add_rows)

lemma nth_add_all_rows:
  assumes "\<forall>pr\<in>set projs. k < length (yearly_projections pr)" and "k < length rows"
  shows "add_all_rows rows projs ! k =
     \<lparr> agg_year = agg_year (rows ! k),
       agg_starting_value = agg_starting_value (rows ! k) +
         sum_list (map (\<lambda>pr. starting_value (yearly_projections pr ! k)) projs),
       agg_ending_value = agg_ending_value (rows ! k) +
         sum_list (map (\<lambda>pr. ending_value (yearly_projections pr ! k)) projs),
       agg_growth = agg_growth (rows ! k) +
         sum_list (map (\<lambda>pr. growth (yearly_projections pr ! k)) projs),
       agg_fees = agg_fees (rows ! k) +
         sum_list (map (\<lambda>pr. fees (yearly_projections pr ! k)) projs),
       agg_taxes = agg_taxes (rows ! k) +
         sum_list (map (\<lambda>pr. taxes (yearly_projections pr ! k)) projs),
       agg_cash_flow = agg_cash_flow (rows ! k) +
         sum_list (map (\<lambda>pr. cash_flow (yearly_projections pr ! k)) projs),
       agg_deferred_tax_liability = agg_deferred_tax_liability (rows ! k) +
         sum_list (map (\<lambda>pr. deferred_tax_liability (yearly_projections pr ! k)) projs) \<rparr>"
  using assms
proof (induction projs arbitrary: rows)
  case Nil
  then show ?case by (simp add: add_all_rows_def)
next
  case (Cons pr projs)
  have step: "add_all_rows rows (pr # projs) =
      add_all_rows (add_rows rows (yearly_projections pr)) projs"
    by (simp add: add_all_rows_def)
  have k: "k < length (add_rows rows (yearly_projections pr))"
    using Cons.prems by (simp add: length_add_rows)
  have here: "add_rows rows (yearly_projections pr) ! k =
      add_row (rows ! k) (yearly_projections pr ! k)"
    using Cons.prems by (simp add: nth_add_rows)
  from Cons.prems have "\<forall>pr\<in>set projs. k < length (yearly_projections pr)"
    by simp
  from Cons.IH [OF this k] show ?case
    by (simp add: step here add_row_def add.assoc)
qed

lemma length_p_projection:
  "length (yearly_projections (p_projection mk gr tr p)) = 10"
  by (simp add: p_projection_def Let_def project_length)

lemma has_holdings_filter: "filter (\<lambda>p. p_holdings p \<noteq> []) ps = filter has_holdings ps"
  by (induction ps) (simp_all add: has_holdings_def)

lemma ledger_of_aggregate_of: "ledger_of (Inr (Some (aggregate_of w f tf tt tc d rows))) = rows"
  by (simp add: ledger_of_def aggregate_of_def)

lemma aggregate_ledger:
  assumes "filter has_holdings ps = p # rest"
  shows "ledger_of (aggregate_loop mk gr tr ps None) =
     add_all_rows (map initial_row (yearly_projections (p_projection mk gr tr p)))
       (map (p_projection mk gr tr) rest)"
  by (simp add: aggregate_loop_start [OF assms] ledger_of_aggregate_of)

lemma aggregate_ledger_nth:
  assumes "filter has_holdings ps = p # rest" and "k < 10"
  shows "ledger_of (aggregate_loop mk gr tr ps None) ! k =
     \<lparr> agg_year = year (yearly_projections (p_projection mk gr tr p) ! k),
       agg_starting_value =
         sum_list (map (\<lambda>q. starting_value (yearly_projections (p_projection mk gr tr q) ! k))
           (p # rest)),
       agg_ending_value =
         sum_list (map (\<lambda>q. ending_value (yearly_projections (p_projection mk gr tr q) ! k))
           (p # rest)),
       agg_growth =
         sum_list (map (\<lambda>q. growth (yearly_projections (p_projection mk gr tr q) ! k))
           (p # rest)),
       agg_fees =
         sum_list (map (\<lambda>q. fees (yearly_projections (p_projection mk gr tr q) ! k))
           (p # rest)),
       agg_taxes =
         sum_list (map (\<lambda>q. taxes (yearly_projections (p_projection mk gr tr q) ! k))
           (p # rest)),
       agg_cash_flow =
         sum_list (map (\<lambda>q. cash_flow (yearly_projections (p_projection mk gr tr q) ! k))
           (p # rest)),
       agg_deferred_tax_liability =
         sum_list (map (\<lambda>q. deferred_tax_liability
             (yearly_projections (p_projection mk gr tr q) ! k)) (p # rest)) \<rparr>"
proof -
  let ?rows = "map initial_row (yearly_projections (p_projection mk gr tr p))"
  have len: "k < length ?rows"
    using assms(2) by (simp add: length_p_projection)
  have all: "\<forall>pr\<in>set (map (p_projection mk gr tr) rest). k < length (yearly_projections pr)"
    using assms(2) by (simp add: length_p_projection)
  have row: "?rows ! k = initial_row (yearly_projections (p_projection mk gr tr p) ! k)"
    using assms(2) by (simp add: length_p_projection)
  show ?thesis
    unfolding aggregate_ledger [OF assms(1)] nth_add_all_rows [OF all len] row
    by (simp add: initial_row_def comp_def)
qed

lemma year_p_projection:
  "k < 10 \<Longrightarrow> year (yearly_projections (p_projection mk gr tr p) ! k) = int k + 1"
proof -
  assume k: "k < 10"
  let ?L = "yearly_projections (p_projection mk gr tr p)"
  have "map year ?L = [1..10]"
    by (simp add: p_projection_def Let_def project_ledger(1))
  then have "map year ?L ! k = [1..10] ! k"
    by simp
  with k show ?thesis
    by (simp add: length_p_projection)
qed

lemma aggregate_keys:
  "map_of (aggregate_of w f tf tt tc d rows) ''weighted_annual_return'' = Some (Number w)"
  "map_of (aggregate_of w f tf tt tc d rows) ''yearly_projections'' = Some (Ledger rows)"
  "map_of (aggregate_of w f tf tt tc d rows) ''account_type'' = None"
  "map fst (aggregate_of w f tf tt tc d rows) =
     [''weighted_annual_return'', ''final_portfolio_value'', ''total_fees'', ''total_taxes'',
      ''total_cash_flows'', ''deferred_tax_liability'', ''yearly_projections'']"
  by (simp_all add: aggregate_of_def)

lemma first_year_of_ten:
  "yearly_projections (project_portfolio_with_taxes alloc rates fee init cf tax acct 10) ! 0 =
   yearly_projections (project_portfolio_with_taxes alloc rates fee init cf tax acct 1) ! 0"
proof -
  have "yearly_projections (project_portfolio_with_taxes alloc rates fee init cf tax acct 1) =
      take (nat 1) (yearly_projections
        (project_portfolio_with_taxes alloc rates fee init cf tax acct 10))"
    by (rule project_take) simp
  then show ?thesis
    by simp
qed

lemma example_a_first_year:
  "yearly_projections
     (p_projection example_portfolio_class [(''Equity'', 7 / 100)] 0 example_a) ! 0 =
   \<lparr> year = 1, starting_value = 100, cash_flow = 5, after_cash_flow = 105,
     growth = 147 / 20, taxes = 0, fees = 2247 / 2000, ending_value = 222453 / 2000,
     annual_return = 7 / 100, deferred_tax_liability = 0 \<rparr>"
  unfolding p_projection_def Let_def first_year_of_ten
  by (simp add: example_portfolio_class_def example_a_def project_portfolio_with_taxes_def
      weighted_annual_return_of_def dict_get_def run_years_def year_body_def
      initial_state_def Let_def)

lemma example_c_first_year:
  "yearly_projections
     (p_projection example_portfolio_class [(''Equity'', 7 / 100)] 0 example_c) ! 0 =
   \<lparr> year = 1, starting_value = 0, cash_flow = 10, after_cash_flow = 10,
     growth = 7 / 10, taxes = 0, fees = 0, ending_value = 107 / 10,
     annual_return = 7 / 100, deferred_tax_liability = 0 \<rparr>"
  unfolding p_projection_def Let_def first_year_of_ten
  by (simp add: example_portfolio_class_def example_c_def project_portfolio_with_taxes_def
      weighted_annual_return_of_def dict_get_def run_years_def year_body_def
      initial_state_def Let_def)

subsection \<open>Position-wise sums\<close>

text \<open>
  Claim C4, as the code has it. The loop projects each portfolio that has holdings on its
  own, with its own fee rate, initial value, cash flow and account type, and passes over a
  portfolio without holdings whatever its cash flow. When at least one portfolio has
  holdings the aggregate exists, its ledger has the ten years \<open>1, \<dots>, 10\<close>, and in every
  year each of \<open>starting_value\<close>, \<open>ending_value\<close>, \<open>growth\<close>, \<open>fees\<close>, \<open>taxes\<close>,
  \<open>cash_flow\<close> and \<open>deferred_tax_liability\<close> is the sum, over the portfolios with holdings,
  of that field in the same year of the portfolio's own projection.
\<close>

theorem C4_aggregate_ledger:
  "filter (\<lambda>p. p_holdings p \<noteq> []) ps \<noteq> [] \<Longrightarrow>
   (\<exists>agg. aggregate_loop mk gr tr ps None = Inr (Some agg) \<and>
      map_of agg ''yearly_projections'' =
        Some (Ledger (ledger_of (aggregate_loop mk gr tr ps None)))) \<and>
   length (ledger_of (aggregate_loop mk gr tr ps None)) = 10 \<and>
   (\<forall>k<10.
      agg_year (ledger_of (aggregate_loop mk gr tr ps None) ! k) = int k + 1 \<and>
      agg_starting_value (ledger_of (aggregate_loop mk gr tr ps None) ! k) =
        sum_list (map (\<lambda>p. starting_value (yearly_projections (p_projection mk gr tr p) ! k))
          (filter (\<lambda>p. p_holdings p \<noteq> []) ps)) \<and>
      agg_ending_value (ledger_of (aggregate_loop mk gr tr ps None) ! k) =
        sum_list (map (\<lambda>p. ending_value (yearly_projections (p_projection mk gr tr p) ! k))
          (filter (\<lambda>p. p_holdings p \<noteq> []) ps)) \<and>
      agg_growth (ledger_of (aggregate_loop mk gr tr ps None) ! k) =
        sum_list (map (\<lambda>p. growth (yearly_projections (p_projection mk gr tr p) ! k))
          (filter (\<lambda>p. p_holdings p \<noteq> []) ps)) \<and>
      agg_fees (ledger_of (aggregate_loop mk gr tr ps None) ! k) =
        sum_list (map (\<lambda>p. fees (yearly_projections (p_projection mk gr tr p) ! k))
          (filter (\<lambda>p. p_holdings p \<noteq> []) ps)) \<and>
      agg_taxes (ledger_of (aggregate_loop mk gr tr ps None) ! k) =
        sum_list (map (\<lambda>p. taxes (yearly_projections (p_projection mk gr tr p) ! k))
          (filter (\<lambda>p. p_holdings p \<noteq> []) ps)) \<and>
      agg_cash_flow (ledger_of (aggregate_loop mk gr tr ps None) ! k) =
        sum_list (map (\<lambda>p. cash_flow (yearly_projections (p_projection mk gr tr p) ! k))
          (filter (\<lambda>p. p_holdings p \<noteq> []) ps)) \<and>
      agg_deferred_tax_liability (ledger_of (aggregate_loop mk gr tr ps None) ! k) =
        sum_list (map (\<lambda>p. deferred_tax_liability
            (yearly_projections (p_projection mk gr tr p) ! k))
          (filter (\<lambda>p. p_holdings p \<noteq> []) ps)))"
proof -
  assume "filter (\<lambda>p. p_holdings p \<noteq> []) ps \<noteq> []"
  then have "filter has_holdings ps \<noteq> []"
    by (simp add: has_holdings_filter)
  then obtain p rest where split: "filter has_holdings ps = p # rest"
    by (meson neq_Nil_conv)
  have rows: "ledger_of (aggregate_loop mk gr tr ps None) =
     add_all_rows (map initial_row (yearly_projections (p_projection mk gr tr p)))
       (map (p_projection mk gr tr) rest)"
    by (rule aggregate_ledger [OF split])
  have "\<exists>agg. aggregate_loop mk gr tr ps None = Inr (Some agg) \<and>
      map_of agg ''yearly_projections'' =
        Some (Ledger (ledger_of (aggregate_loop mk gr tr ps None)))"
    unfolding rows by (simp add: aggregate_loop_start [OF split] aggregate_keys)
  moreover have "length (ledger_of (aggregate_loop mk gr tr ps None)) = 10"
    unfolding rows by (simp add: length_add_all_rows length_p_projection)
  moreover have "agg_year (ledger_of (aggregate_loop mk gr tr ps None) ! k) = int k + 1"
    if "k < 10" for k
    using that by (simp add: aggregate_ledger_nth [OF split that] year_p_projection)
  ultimately show ?thesis
    unfolding has_holdings_filter split
    by (simp add: aggregate_ledger_nth [OF split])
qed

text \<open>
  Claim C4 as stated fails for a list with a portfolio that has no holdings but a cash flow:
  its projection is not run. For \<open>example_a\<close> and \<open>example_c\<close> the first year of the
  aggregate has the ending value 111.2265 and the cash flow 5 of \<open>example_a\<close> alone, while
  the two projections add up to 111.2265 + 10.7 and to 15.
\<close>

theorem C4_counterexample:
  "agg_ending_value (ledger_of (aggregate_loop example_portfolio_class [(''Equity'', 7 / 100)] 0
       [example_a, example_c] None) ! 0) = 222453 / 2000 \<and>
   ending_value (yearly_projections
       (p_projection example_portfolio_class [(''Equity'', 7 / 100)] 0 example_a) ! 0) +
   ending_value (yearly_projections
       (p_projection example_portfolio_class [(''Equity'', 7 / 100)] 0 example_c) ! 0) =
     222453 / 2000 + 107 / 10 \<and>
   agg_cash_flow (ledger_of (aggregate_loop example_portfolio_class [(''Equity'', 7 / 100)] 0
       [example_a, example_c] None) ! 0) = 5 \<and>
   cash_flow (yearly_projections
       (p_projection example_portfolio_class [(''Equity'', 7 / 100)] 0 example_a) ! 0) +
   cash_flow (yearly_projections
       (p_projection example_portfolio_class [(''Equity'', 7 / 100)] 0 example_c) ! 0) = 15"
proof -
  have "filter has_holdings [example_a, example_c] = example_a # []"
    by (simp add: has_holdings_def example_a_def example_c_def)
  from aggregate_ledger_nth [OF this, of 0 example_portfolio_class "[(''Equity'', 7 / 100)]" 0]
  show ?thesis
    by (simp add: example_a_first_year example_c_first_year)
qed

text \<open>The sums in the last year for two portfolios with holdings and one without.\<close>

theorem C4_aggregate_ledger_witness:
  "filter (\<lambda>p. p_holdings p \<noteq> []) [example_c, example_a, example_b] = [example_a, example_b] \<and>
   length (ledger_of (aggregate_loop example_portfolio_class [(''Equity'', 7 / 100)] (1 / 5)
       [example_c, example_a, example_b] None)) = 10 \<and>
   agg_ending_value (ledger_of (aggregate_loop example_portfolio_class [(''Equity'', 7 / 100)]
       (1 / 5) [example_c, example_a, example_b] None) ! 9) =
     ending_value (yearly_projections
       (p_projection example_portfolio_class [(''Equity'', 7 / 100)] (1 / 5) example_a) ! 9) +
     ending_value (yearly_projections
       (p_projection example_portfolio_class [(''Equity'', 7 / 100)] (1 / 5) example_b) ! 9)"
proof -
  have sel: "filter (\<lambda>p. p_holdings p \<noteq> []) [example_c, example_a, example_b] =
      [example_a, example_b]"
    by (simp add: example_a_def example_b_def example_c_def)
  then have ne: "filter (\<lambda>p. p_holdings p \<noteq> []) [example_c, example_a, example_b] \<noteq> []"
    by simp
  note inst = C4_aggregate_ledger [OF ne, of example_portfolio_class "[(''Equity'', 7 / 100)]"
      "1 / 5"]
  note len = inst [THEN conjunct2, THEN conjunct1]
  note rows = inst [THEN conjunct2, THEN conjunct2, rule_format, of 9]
  have "(9::nat) < 10"
    by simp
  from rows [OF this] have "agg_ending_value (ledger_of (aggregate_loop example_portfolio_class
       [(''Equity'', 7 / 100)] (1 / 5) [example_c, example_a, example_b] None) ! 9) =
     sum_list (map (\<lambda>p. ending_value (yearly_projections
         (p_projection example_portfolio_class [(''Equity'', 7 / 100)] (1 / 5) p) ! 9))
       (filter (\<lambda>p. p_holdings p \<noteq> []) [example_c, example_a, example_b]))"
    by (elim conjE)
  then have "agg_ending_value (ledger_of (aggregate_loop example_portfolio_class
       [(''Equity'', 7 / 100)] (1 / 5) [example_c, example_a, example_b] None) ! 9) =
     ending_value (yearly_projections
       (p_projection example_portfolio_class [(''Equity'', 7 / 100)] (1 / 5) example_a) ! 9) +
     ending_value (yearly_projections
       (p_projection example_portfolio_class [(''Equity'', 7 / 100)] (1 / 5) example_b) ! 9)"
    by (simp only: sel list.map sum_list.Cons sum_list.Nil add_0_right)
  with sel len show ?thesis
    by (intro conjI)
qed

subsection \<open>The reported return and the keys of the aggregate\<close>

text \<open>
  Claim C9. The \<open>weighted_annual_return\<close> of the aggregate is the one of the projection
  of the first portfolio with holdings, whatever portfolios follow; the aggregate has the
  seven keys of its dict literal, and \<open>account_type\<close> is not one of them.
\<close>

theorem C9_first_return_only:
  "filter (\<lambda>p. p_holdings p \<noteq> []) ps = p # rest \<Longrightarrow>
   \<exists>agg. aggregate_loop mk gr tr ps None = Inr (Some agg) \<and>
     map_of agg ''weighted_annual_return'' =
       Some (Number (weighted_annual_return (p_projection mk gr tr p))) \<and>
     map_of agg ''account_type'' = None \<and>
     map fst agg =
       [''weighted_annual_return'', ''final_portfolio_value'', ''total_fees'', ''total_taxes'',
        ''total_cash_flows'', ''deferred_tax_liability'', ''yearly_projections'']"
proof -
  assume "filter (\<lambda>p. p_holdings p \<noteq> []) ps = p # rest"
  then have "filter has_holdings ps = p # rest"
    by (simp add: has_holdings_filter)
  then obtain f tf tt tc d rows where
    "aggregate_loop mk gr tr ps None =
       Inr (Some (aggregate_of (weighted_annual_return (p_projection mk gr tr p))
         f tf tt tc d rows))"
    using aggregate_loop_start [of ps p rest mk gr tr] by blast
  then show ?thesis
    by (simp add: aggregate_keys)
qed

text \<open>
  A portfolio without holdings, then one in \<open>Equity\<close> (7 percent), then one in
  \<open>Bonds\<close> (3 percent): the aggregate reports 7 percent.
\<close>

theorem C9_first_return_only_witness:
  "filter (\<lambda>p. p_holdings p \<noteq> []) [example_c, example_a, example_b] =
     example_a # [example_b] \<and>
   (\<exists>agg. aggregate_loop example_portfolio_class [(''Equity'', 7 / 100), (''Bonds'', 3 / 100)]
        (1 / 5) [example_c, example_a, example_b] None = Inr (Some agg) \<and>
      map_of agg ''weighted_annual_return'' = Some (Number (7 / 100)) \<and>
      map_of agg ''account_type'' = None) \<and>
   weighted_annual_return (p_projection example_portfolio_class
      [(''Equity'', 7 / 100), (''Bonds'', 3 / 100)] (1 / 5) example_b) = 3 / 100"
proof -
  have sel: "filter (\<lambda>p. p_holdings p \<noteq> []) [example_c, example_a, example_b] =
      example_a # [example_b]"
    by (simp add: example_a_def example_b_def example_c_def)
  have w: "weighted_annual_return (p_projection example_portfolio_class
      [(''Equity'', 7 / 100), (''Bonds'', 3 / 100)] (1 / 5) example_a) = 7 / 100"
    by (simp add: p_projection_def project_portfolio_with_taxes_def Let_def
        example_portfolio_class_def example_a_def weighted_annual_return_of_def dict_get_def)
  have w': "weighted_annual_return (p_projection example_portfolio_class
      [(''Equity'', 7 / 100), (''Bonds'', 3 / 100)] (1 / 5) example_b) = 3 / 100"
    by (simp add: p_projection_def project_portfolio_with_taxes_def Let_def
        example_portfolio_class_def example_b_def weighted_annual_return_of_def dict_get_def)
  from C9_first_return_only [OF sel, of example_portfolio_class
      "[(''Equity'', 7 / 100), (''Bonds'', 3 / 100)]" "1 / 5"]
  obtain agg where "aggregate_loop example_portfolio_class
        [(''Equity'', 7 / 100), (''Bonds'', 3 / 100)] (1 / 5)
        [example_c, example_a, example_b] None = Inr (Some agg)"
    and "map_of agg ''weighted_annual_return'' = Some (Number (weighted_annual_return
        (p_projection example_portfolio_class [(''Equity'', 7 / 100), (''Bonds'', 3 / 100)]
           (1 / 5) example_a)))"
    and "map_of agg ''account_type'' = None"
    by blast
  with sel w w' show ?thesis
    by auto
qed

section \<open>Properties of the historical returns\<close>

subsection \<open>The fee deduction in closed form\<close>

lemma not_whole: "(1 / 252 :: real) \<noteq> of_int \<lfloor>1 / 252 :: real\<rfloor>"
  by simp



lemma layer_one: "layer (Some 1) r = r"
  by (cases r) (simp_all add: layer_def f_add_def f_sub_def f_mul_def)

lemma deduct_one: "deduct (Some 1) port_returns = port_returns"
  by (simp add: deduct_def layer_one map_idI)





lemma deduct_fees_identity:
  "deduct_fees port_returns weights 0 None = Inr port_returns"
  "deduct_fees port_returns weights 0 (Some []) = Inr port_returns"
  by (simp_all add: deduct_fees_def py_pow_def real_pow_def and_then_def deduct_one)



subsection \<open>Advisory fee first, then the expense ratios\<close>




subsection \<open>Tickers without prices\<close>

lemma weights_array_of_Inl:
  "weights_array_of weights cols = Inl e \<longleftrightarrow>
     e = KeyError \<and> (\<exists>col\<in>set cols. map_of weights col = None)"
  by (induction cols) (auto simp: and_then_def split: option.splits sum.splits)

lemma weights_array_of_cong:
  "\<forall>col\<in>set cols. map_of weights col = map_of weights' col \<Longrightarrow>
   weights_array_of weights cols = weights_array_of weights' cols"
  by (induction cols) (auto simp: and_then_def split: option.splits)

lemma weighted_returns_Inl:
  "weighted_returns prices weights = Inl e \<longleftrightarrow>
     e = KeyError \<and> (\<exists>col\<in>set (df_columns prices). map_of weights col = None)"
proof -
  have "weighted_returns prices weights = Inl e \<longleftrightarrow>
      weights_array_of weights (df_columns prices) = Inl e"
    by (cases "weights_array_of weights (df_columns prices)")
      (simp_all add: weighted_returns_def Let_def and_then_def)
  then show ?thesis
    by (simp only: weights_array_of_Inl)
qed

lemma calculate_default:
  "calculate_portfolio_returns prices weights 0 None = weighted_returns prices weights"
  by (cases "weighted_returns prices weights")
    (simp_all add: calculate_portfolio_returns_def and_then_def deduct_fees_identity)

lemma map_of_without:
  "col \<noteq> ticker \<Longrightarrow> map_of (filter (\<lambda>item. fst item \<noteq> ticker) weights) col = map_of weights col"
  by (induction weights) auto

lemma short_frame:
  assumes "length frame < 2" and "\<forall>row\<in>set frame. row \<noteq> []"
  shows "dropna (pct_change frame) = []"
proof (cases frame)
  case Nil
  then show ?thesis by (simp add: dropna_def)
next
  case (Cons first later)
  with assms have "later = []" "first \<noteq> []"
    by simp_all
  with Cons show ?thesis
    by (cases first) (simp_all add: dropna_def)
qed

text \<open>
  Claim C3, as the code has it. With the default fee arguments the call raises exactly when
  a column of the price frame is not a key of the weights, and then it raises
  \<open>KeyError\<close>. A ticker of the weights that is not a column of the frame is passed over:
  the outcome is the one for the weights without that ticker. A frame with columns, all of
  them keys of the weights, and fewer than two rows gives the empty series, not an error.
\<close>

theorem C3_missing_ticker:
  "(calculate_portfolio_returns prices weights 0 None = Inl e \<longleftrightarrow>
      e = KeyError \<and> (\<exists>col\<in>set (df_columns prices). col \<notin> fst ` set weights)) \<and>
   (ticker \<notin> set (df_columns prices) \<longrightarrow>
      calculate_portfolio_returns prices weights 0 None =
      calculate_portfolio_returns prices
        (filter (\<lambda>item. fst item \<noteq> ticker) weights) 0 None) \<and>
   (length (df_values prices) < 2 \<and> df_columns prices \<noteq> [] \<and>
    (\<forall>row\<in>set (df_values prices). length row = length (df_columns prices)) \<and>
    set (df_columns prices) \<subseteq> fst ` set weights \<longrightarrow>
      calculate_portfolio_returns prices weights 0 None = Inr [])"
proof (intro conjI impI)
  show "calculate_portfolio_returns prices weights 0 None = Inl e \<longleftrightarrow>
      e = KeyError \<and> (\<exists>col\<in>set (df_columns prices). col \<notin> fst ` set weights)"
    by (simp add: calculate_default weighted_returns_Inl map_of_eq_None_iff)
next
  assume absent: "ticker \<notin> set (df_columns prices)"
  have "map_of weights col = map_of (filter (\<lambda>item. fst item \<noteq> ticker) weights) col"
    if "col \<in> set (df_columns prices)" for col
  proof -
    from that absent have "col \<noteq> ticker"
      by auto
    then show ?thesis
      by (simp add: map_of_without)
  qed
  then have "\<forall>col\<in>set (df_columns prices).
      map_of weights col = map_of (filter (\<lambda>item. fst item \<noteq> ticker) weights) col"
    by blast
  then have "weights_array_of weights (df_columns prices) =
      weights_array_of (filter (\<lambda>item. fst item \<noteq> ticker) weights) (df_columns prices)"
    by (rule weights_array_of_cong)
  then show "calculate_portfolio_returns prices weights 0 None =
      calculate_portfolio_returns prices (filter (\<lambda>item. fst item \<noteq> ticker) weights) 0 None"
    by (simp add: calculate_default weighted_returns_def)
next
  assume short: "length (df_values prices) < 2 \<and> df_columns prices \<noteq> [] \<and>
    (\<forall>row\<in>set (df_values prices). length row = length (df_columns prices)) \<and>
    set (df_columns prices) \<subseteq> fst ` set weights"
  then have "\<forall>row\<in>set (df_values prices). row \<noteq> []"
    by auto
  with short have empty: "dropna (pct_change (df_values prices)) = []"
    by (simp add: short_frame)
  from short have "\<not> (\<exists>col\<in>set (df_columns prices). map_of weights col = None)"
    by (auto simp: map_of_eq_None_iff)
  then have "weights_array_of weights (df_columns prices) \<noteq> Inl e'" for e'
    by (simp only: weights_array_of_Inl) blast
  then obtain ws where "weights_array_of weights (df_columns prices) = Inr ws"
    by (cases "weights_array_of weights (df_columns prices)") auto
  with empty show "calculate_portfolio_returns prices weights 0 None = Inr []"
    by (simp add: calculate_default weighted_returns_def and_then_def)
qed

text \<open>
  Claim C3 as stated fails: a ticker of the weights without a column of prices, and a
  ticker with a single price, both give a series and no error.
\<close>

theorem C3_counterexample:
  "calculate_portfolio_returns \<lparr> df_columns = [''SPY''], df_values = [[100], [110]] \<rparr>
     [(''SPY'', 1 / 2), (''VOO'', 1 / 2)] 0 None = Inr [Some (1 / 20)] \<and>
   calculate_portfolio_returns \<lparr> df_columns = [''SPY''], df_values = [[100]] \<rparr>
     [(''SPY'', 1)] 0 None = Inr []"
  by (simp add: calculate_default weighted_returns_def dropna_def and_then_def np_div_def
      f_add_def)

text \<open>
  A column without a weight raises, a weight without a column changes nothing, a single row
  gives the empty series.
\<close>

theorem C3_missing_ticker_witness:
  "calculate_portfolio_returns \<lparr> df_columns = [''SPY'', ''VOO''],
       df_values = [[100, 10], [110, 11]] \<rparr> [(''SPY'', 1)] 0 None = Inl KeyError \<and>
   calculate_portfolio_returns \<lparr> df_columns = [''SPY''], df_values = [[100], [110]] \<rparr>
     [(''SPY'', 1 / 2), (''VOO'', 1 / 2)] 0 None =
   calculate_portfolio_returns \<lparr> df_columns = [''SPY''], df_values = [[100], [110]] \<rparr>
     [(''SPY'', 1 / 2)] 0 None \<and>
   calculate_portfolio_returns \<lparr> df_columns = [''SPY''], df_values = [[100]] \<rparr>
     [(''SPY'', 1)] 0 None = Inr []"
proof -
  have "calculate_portfolio_returns \<lparr> df_columns = [''SPY'', ''VOO''],
       df_values = [[100, 10], [110, 11]] \<rparr> [(''SPY'', 1)] 0 None = Inl KeyError"
    using C3_missing_ticker [of "\<lparr> df_columns = [''SPY'', ''VOO''],
       df_values = [[100, 10], [110, 11]] \<rparr>" "[(''SPY'', 1)]" KeyError, THEN conjunct1]
    by simp
  moreover have "calculate_portfolio_returns
       \<lparr> df_columns = [''SPY''], df_values = [[100], [110]] \<rparr>
       [(''SPY'', 1 / 2), (''VOO'', 1 / 2)] 0 None =
     calculate_portfolio_returns \<lparr> df_columns = [''SPY''], df_values = [[100], [110]] \<rparr>
       [(''SPY'', 1 / 2)] 0 None"
    using C3_missing_ticker [of "\<lparr> df_columns = [''SPY''], df_values = [[100], [110]] \<rparr>"
        "[(''SPY'', 1 / 2), (''VOO'', 1 / 2)]" KeyError "''VOO''",
        THEN conjunct2, THEN conjunct1]
    by simp
  moreover have "calculate_portfolio_returns \<lparr> df_columns = [''SPY''], df_values = [[100]] \<rparr>
     [(''SPY'', 1)] 0 None = Inr []"
    using C3_missing_ticker [of "\<lparr> df_columns = [''SPY''], df_values = [[100]] \<rparr>"
        "[(''SPY'', 1)]" KeyError "''VOO''", THEN conjunct2, THEN conjunct2]
    by simp
  ultimately show ?thesis
    by (intro conjI)
qed

section \<open>Properties of the performance statistics\<close>

lemma cumprod_from_Nil: "cumprod_from acc xs = [] \<longleftrightarrow> xs = []"
  by (cases xs) simp_all

lemma last_cumprod_from:
  "xs \<noteq> [] \<Longrightarrow> last (cumprod_from acc xs) = acc * prod_list xs"
proof (induction xs arbitrary: acc)
  case Nil
  then show ?case by simp
next
  case (Cons x xs)
  show ?case
  proof (cases "xs = []")
    case True
    then show ?thesis by simp
  next
    case False
    with Cons.IH [of "acc * x"] show ?thesis
      by (simp add: cumprod_from_Nil mult.assoc)
  qed
qed

lemma prod_list_constant: "prod_list (replicate n x) = x ^ n" for x :: real
  by (induction n) simp_all

lemma cumprod_from_zero: "cumprod_from 0 xs = map (\<lambda>x. 0) xs"
  by (induction xs) simp_all

lemma drawdowns_zero:
  "set (drawdowns (map (\<lambda>x. 0) xs) (cummax_from 0 (map (\<lambda>x. 0) xs))) \<subseteq> {NaN}"
  by (induction xs) (simp_all add: drawdowns_def np_div_def)

text \<open>No infinity among the drawdowns: a peak of 0 is only reached at the value 0.\<close>

lemma drawdowns_finite_or_nan:
  "(m = 0 \<longrightarrow> acc = 0) \<Longrightarrow>
   \<forall>d\<in>set (drawdowns (cumprod_from acc xs) (cummax_from m (cumprod_from acc xs))).
      d = NaN \<or> (\<exists>v. d = Fin v)"
proof (induction xs arbitrary: acc m)
  case Nil
  show ?case by (simp add: drawdowns_def)
next
  case (Cons x xs)
  let ?c = "acc * x" and ?m = "max m (acc * x)"
  have inv: "?m = 0 \<longrightarrow> ?c = 0"
    using Cons.prems by (auto simp: max_def split: if_splits)
  have here: "np_minus (np_div ?c ?m) 1 = NaN \<or> (\<exists>v. np_minus (np_div ?c ?m) 1 = Fin v)"
    using inv by (auto simp: np_div_def)
  from Cons.IH [OF inv] here show ?case
    by (simp add: drawdowns_def)
qed

lemma drawdowns_constant:
  "0 < acc \<Longrightarrow> 1 \<le> x \<Longrightarrow>
   set (drawdowns (cumprod_from acc (replicate k x))
          (cummax_from acc (cumprod_from acc (replicate k x)))) \<subseteq> {Fin 0}"
proof (induction k arbitrary: acc)
  case 0
  show ?case by (simp add: drawdowns_def)
next
  case (Suc k)
  have grow: "acc \<le> acc * x"
    using Suc.prems by (simp add: mult_le_cancel_left1)
  then have peak: "max acc (acc * x) = acc * x"
    by simp
  have pos: "0 < acc * x"
    using Suc.prems by simp
  from Suc.prems have "acc * x \<noteq> 0"
    by simp
  then have "np_minus (np_div (acc * x) (acc * x)) 1 = Fin 0"
    by (simp add: np_div_def)
  with Suc.IH [OF pos Suc.prems(2)] show ?case
    by (simp add: drawdowns_def peak)
qed

lemma fold_np_min_Fin:
  "\<forall>d\<in>set ds. \<exists>v. d = Fin v \<Longrightarrow> \<exists>b. fold np_min ds (Fin a) = Fin b \<and> b \<le> a"
proof (induction ds arbitrary: a)
  case Nil
  show ?case by simp
next
  case (Cons d ds)
  then obtain v where d: "d = Fin v"
    by auto
  have "np_min d (Fin a) = Fin (min v a)"
    by (simp add: d np_min_def min_def)
  moreover from Cons.prems have "\<forall>d\<in>set ds. \<exists>v. d = Fin v"
    by simp
  ultimately obtain b where "fold np_min ds (np_min d (Fin a)) = Fin b" "b \<le> min v a"
    using Cons.IH [of "min v a"] by auto
  then show ?case
    by auto
qed

lemma nanmin_head_Fin:
  assumes "\<forall>d\<in>set ds. d = NaN \<or> (\<exists>v. d = Fin v)"
  shows "\<exists>b. nanmin (Fin a # ds) = Fin b \<and> b \<le> a"
proof -
  have "\<forall>d\<in>set (filter (\<lambda>x. x \<noteq> NaN) ds). \<exists>v. d = Fin v"
    using assms by auto
  from fold_np_min_Fin [OF this, of a] show ?thesis
    by (simp add: nanmin_def)
qed

lemma nanmin_all_NaN: "set ds \<subseteq> {NaN} \<Longrightarrow> nanmin ds = NaN"
proof -
  assume "set ds \<subseteq> {NaN}"
  then have "filter (\<lambda>x. x \<noteq> NaN) ds = []"
    by (auto simp: filter_empty_conv)
  then show ?thesis
    by (simp add: nanmin_def)
qed

lemma nanmin_all_zero: "set ds \<subseteq> {Fin 0} \<Longrightarrow> nanmin (Fin 0 # ds) = Fin 0"
proof (induction ds)
  case Nil
  show ?case by (simp add: nanmin_def)
next
  case (Cons d ds)
  then have "d = Fin 0" "set ds \<subseteq> {Fin 0}"
    by simp_all
  with Cons.IH show ?case
    by (simp add: nanmin_def np_min_def)
qed

lemma performance_stats_Inl:
  "performance_stats port_returns risk_free = Inl e \<longleftrightarrow> e = IndexError \<and> port_returns = []"
  by (auto simp: performance_stats_def cumprod_def cumprod_from_Nil Let_def)

lemma performance_stats_empty: "performance_stats [] risk_free = Inl IndexError"
  by (simp add: performance_stats_def cumprod_def)

lemma performance_stats_Cons:
  assumes "performance_stats (x # xs) risk_free = Inr (stats, cumulative)"
  shows "total_return stats = prod_list (map (\<lambda>r. 1 + r) (x # xs)) - 1"
    and "max_drawdown stats =
      nanmin (np_minus (np_div (1 + x) (1 + x)) 1 #
        drawdowns (cumprod_from (1 + x) (map (\<lambda>r. 1 + r) xs))
          (cummax_from (1 + x) (cumprod_from (1 + x) (map (\<lambda>r. 1 + r) xs))))"
proof -
  let ?cum = "cumprod (map (\<lambda>r. 1 + r) (x # xs))"
  have cum: "?cum = (1 + x) # cumprod_from (1 + x) (map (\<lambda>r. 1 + r) xs)"
    by (simp add: cumprod_def)
  then have ne: "?cum \<noteq> []"
    by simp
  have last: "last ?cum = prod_list (map (\<lambda>r. 1 + r) (x # xs))"
    unfolding cumprod_def using last_cumprod_from [of "map (\<lambda>r. 1 + r) (x # xs)" 1] by simp
  have dd: "map (\<lambda>(c, m). np_minus (np_div c m) 1) (zip ?cum (cummax ?cum)) =
      np_minus (np_div (1 + x) (1 + x)) 1 #
        drawdowns (cumprod_from (1 + x) (map (\<lambda>r. 1 + r) xs))
          (cummax_from (1 + x) (cumprod_from (1 + x) (map (\<lambda>r. 1 + r) xs)))"
    unfolding cum by (simp add: cummax_def drawdowns_def)
  define st where "st = \<lparr> total_return = last ?cum - 1,
             annualized_return =
               np_minus (np_power (1 + (last ?cum - 1)) (252 / real (length (x # xs)))) 1,
             volatility = np_scale (std (x # xs)) (sqrt 252),
             sharpe_ratio = np_divide (np_minus (np_minus (np_power (1 + (last ?cum - 1))
               (252 / real (length (x # xs)))) 1) risk_free) (np_scale (std (x # xs)) (sqrt 252)),
             max_drawdown =
               nanmin (map (\<lambda>(c, m). np_minus (np_div c m) 1) (zip ?cum (cummax ?cum))) \<rparr>"
  have "performance_stats (x # xs) risk_free = Inr (st, ?cum)"
    unfolding performance_stats_def Let_def st_def using ne by (simp only: if_False)
  with assms have stats: "stats = st"
    by simp
  show "total_return stats = prod_list (map (\<lambda>r. 1 + r) (x # xs)) - 1"
    unfolding stats st_def by (simp only: performance.simps last)
  show "max_drawdown stats =
      nanmin (np_minus (np_div (1 + x) (1 + x)) 1 #
        drawdowns (cumprod_from (1 + x) (map (\<lambda>r. 1 + r) xs))
          (cummax_from (1 + x) (cumprod_from (1 + x) (map (\<lambda>r. 1 + r) xs))))"
    unfolding stats st_def by (simp only: performance.simps dd)
qed

lemma max_drawdown_nonpositive:
  assumes "performance_stats port_returns risk_free = Inr (stats, cumulative)"
    and "hd port_returns \<noteq> - 1"
  shows "\<exists>d. max_drawdown stats = Fin d \<and> d \<le> 0"
proof -
  from assms(1) have "port_returns \<noteq> []"
    by (auto simp: performance_stats_empty)
  then obtain x xs where split: "port_returns = x # xs"
    by (cases port_returns) auto
  with assms(2) have nz: "1 + x \<noteq> 0"
    by simp
  then have head: "np_minus (np_div (1 + x) (1 + x)) 1 = Fin 0"
    by (simp add: np_div_def)
  from nz have "1 + x = 0 \<longrightarrow> 1 + x = 0"
    by simp
  note rest = drawdowns_finite_or_nan [OF this, of "map (\<lambda>r. 1 + r) xs"]
  from nanmin_head_Fin [OF rest, of 0] show ?thesis
    using performance_stats_Cons(2) [OF assms(1) [unfolded split]] by (simp add: head)
qed

lemma max_drawdown_nan:
  assumes "performance_stats port_returns risk_free = Inr (stats, cumulative)"
    and "hd port_returns = - 1"
  shows "max_drawdown stats = NaN"
proof -
  from assms(1) have "port_returns \<noteq> []"
    by (auto simp: performance_stats_empty)
  then obtain x xs where split: "port_returns = x # xs"
    by (cases port_returns) auto
  with assms(2) have z: "1 + x = 0"
    by simp
  have "set (np_minus (np_div (1 + x) (1 + x)) 1 #
        drawdowns (cumprod_from (1 + x) (map (\<lambda>r. 1 + r) xs))
          (cummax_from (1 + x) (cumprod_from (1 + x) (map (\<lambda>r. 1 + r) xs)))) \<subseteq> {NaN}"
    using drawdowns_zero [of "map (\<lambda>r. 1 + r) xs"]
    by (simp add: z np_div_def cumprod_from_zero comp_def)
  then show ?thesis
    using performance_stats_Cons(2) [OF assms(1) [unfolded split]]
    by (simp only: nanmin_all_NaN)
qed

lemma constant_series:
  assumes "performance_stats (replicate n r) risk_free = Inr (stats, cumulative)"
  shows "total_return stats = (1 + r) ^ n - 1"
    and "0 \<le> r \<Longrightarrow> max_drawdown stats = Fin 0"
proof -
  from assms obtain k where n: "n = Suc k"
    by (cases n) (auto simp: performance_stats_empty)
  note run = assms [unfolded n replicate_Suc]
  show "total_return stats = (1 + r) ^ n - 1"
    using performance_stats_Cons(1) [OF run] by (simp add: n prod_list_constant)
  show "max_drawdown stats = Fin 0" if "0 \<le> r"
  proof -
    from that have pos: "0 < 1 + r" and big: "1 \<le> 1 + r"
      by simp_all
    then have head: "np_minus (np_div (1 + r) (1 + r)) 1 = Fin 0"
      by (simp add: np_div_def)
    from drawdowns_constant [OF pos big, of k] show ?thesis
      using performance_stats_Cons(2) [OF run]
      by (simp add: head nanmin_all_zero)
  qed
qed

subsection \<open>Total return and maximum drawdown\<close>

text \<open>
  Claim C8, as the code has it. The call raises (\<open>IndexError\<close>) exactly on the empty
  series. On the constant series of \<open>n\<close> returns \<open>r\<close> the total return is
  \<open>(1 + r) ^ n - 1\<close>, and the maximum drawdown is 0 when \<open>r \<ge> 0\<close>. On every series whose
  first return is not \<open>-1\<close> the maximum drawdown is a finite number that is at most 0; when
  the first return is \<open>-1\<close> every cumulative value and every peak is 0, every drawdown is
  \<open>0 / 0\<close>, and the maximum drawdown is \<open>NaN\<close>.
\<close>

theorem C8_summary:
  "(performance_stats port_returns risk_free = Inl e \<longleftrightarrow> e = IndexError \<and> port_returns = []) \<and>
   (performance_stats (replicate n r) risk_free = Inr (stats, cumulative) \<longrightarrow>
      total_return stats = (1 + r) ^ n - 1 \<and> (0 \<le> r \<longrightarrow> max_drawdown stats = Fin 0)) \<and>
   (performance_stats port_returns risk_free = Inr (stats', cumulative') \<longrightarrow>
      (hd port_returns \<noteq> - 1 \<longrightarrow> (\<exists>d. max_drawdown stats' = Fin d \<and> d \<le> 0)) \<and>
      (hd port_returns = - 1 \<longrightarrow> max_drawdown stats' = NaN))"
proof (intro conjI impI)
  show "performance_stats port_returns risk_free = Inl e \<longleftrightarrow> e = IndexError \<and> port_returns = []"
    by (rule performance_stats_Inl)
next
  assume "performance_stats (replicate n r) risk_free = Inr (stats, cumulative)"
  then show "total_return stats = (1 + r) ^ n - 1"
    by (rule constant_series(1))
next
  assume "performance_stats (replicate n r) risk_free = Inr (stats, cumulative)" and "0 \<le> r"
  then show "max_drawdown stats = Fin 0"
    by (rule constant_series(2))
next
  assume "performance_stats port_returns risk_free = Inr (stats', cumulative')"
    and "hd port_returns \<noteq> - 1"
  then show "\<exists>d. max_drawdown stats' = Fin d \<and> d \<le> 0"
    by (rule max_drawdown_nonpositive)
next
  assume "performance_stats port_returns risk_free = Inr (stats', cumulative')"
    and "hd port_returns = - 1"
  then show "max_drawdown stats' = NaN"
    by (rule max_drawdown_nan)
qed

text \<open>
  Claim C8 as stated fails on the series of the single return \<open>-1\<close>: the maximum
  drawdown is \<open>NaN\<close>, which is not at most 0.
\<close>

theorem C8_counterexample:
  "performance_stats [- 1] (1 / 50) =
     Inr (\<lparr> total_return = - 1, annualized_return = Fin (- 1), volatility = NaN,
            sharpe_ratio = NaN, max_drawdown = NaN \<rparr>, [0])"
  by (simp add: performance_stats_def cumprod_def cummax_def np_power_def real_pow_def std_def
      nanmin_def np_div_def Let_def)

text \<open>
  Three periods at 10 percent, a gain followed by a loss, a total loss followed by a gain,
  and the empty series.
\<close>

theorem C8_summary_witness:
  "(\<exists>stats cumulative. performance_stats (replicate 3 (1 / 10)) (1 / 50) = Inr (stats, cumulative) \<and>
      total_return stats = (1 + 1 / 10) ^ 3 - 1 \<and> max_drawdown stats = Fin 0) \<and>
   (\<exists>stats cumulative d. performance_stats [1 / 10, - (1 / 2)] (1 / 50) = Inr (stats, cumulative) \<and>
      max_drawdown stats = Fin d \<and> d \<le> 0) \<and>
   (\<exists>stats cumulative. performance_stats [- 1, 1 / 10] (1 / 50) = Inr (stats, cumulative) \<and>
      max_drawdown stats = NaN) \<and>
   performance_stats [] (1 / 50) = Inl IndexError"
proof (intro conjI)
  have "performance_stats (replicate 3 (1 / 10)) (1 / 50) \<noteq> Inl e" for e
    using C8_summary [of "replicate 3 (1 / 10)" "1 / 50" e, THEN conjunct1] by simp
  then obtain stats cumulative where
    run: "performance_stats (replicate 3 (1 / 10)) (1 / 50) = Inr (stats, cumulative)"
    by (cases "performance_stats (replicate 3 (1 / 10)) (1 / 50)") auto
  from C8_summary [of _ "1 / 50" _ 3 "1 / 10" stats cumulative, THEN conjunct2, THEN conjunct1,
      rule_format, OF run]
  have "total_return stats = (1 + 1 / 10) ^ 3 - 1 \<and> (0 \<le> (1 / 10 :: real) \<longrightarrow>
      max_drawdown stats = Fin 0)" .
  with run show "\<exists>stats cumulative.
      performance_stats (replicate 3 (1 / 10)) (1 / 50) = Inr (stats, cumulative) \<and>
      total_return stats = (1 + 1 / 10) ^ 3 - 1 \<and> max_drawdown stats = Fin 0"
    by auto
next
  have "performance_stats [1 / 10, - (1 / 2)] (1 / 50) \<noteq> Inl e" for e
    using C8_summary [of "[1 / 10, - (1 / 2)]" "1 / 50" e, THEN conjunct1] by simp
  then obtain stats cumulative where
    run: "performance_stats [1 / 10, - (1 / 2)] (1 / 50) = Inr (stats, cumulative)"
    by (cases "performance_stats [1 / 10, - (1 / 2)] (1 / 50)") auto
  from C8_summary [of "[1 / 10, - (1 / 2)]" "1 / 50" _ _ _ _ _ stats cumulative,
      THEN conjunct2, THEN conjunct2, rule_format, OF run]
  have "\<exists>d. max_drawdown stats = Fin d \<and> d \<le> 0"
    by simp
  with run show "\<exists>stats cumulative d.
      performance_stats [1 / 10, - (1 / 2)] (1 / 50) = Inr (stats, cumulative) \<and>
      max_drawdown stats = Fin d \<and> d \<le> 0"
    by blast
next
  have "performance_stats [- 1, 1 / 10] (1 / 50) \<noteq> Inl e" for e
    using C8_summary [of "[- 1, 1 / 10]" "1 / 50" e, THEN conjunct1] by simp
  then obtain stats cumulative where
    run: "performance_stats [- 1, 1 / 10] (1 / 50) = Inr (stats, cumulative)"
    by (cases "performance_stats [- 1, 1 / 10] (1 / 50)") auto
  from C8_summary [of "[- 1, 1 / 10]" "1 / 50" _ _ _ _ _ stats cumulative,
      THEN conjunct2, THEN conjunct2, rule_format, OF run]
  have "max_drawdown stats = NaN"
    by simp
  with run show "\<exists>stats cumulative.
      performance_stats [- 1, 1 / 10] (1 / 50) = Inr (stats, cumulative) \<and>
      max_drawdown stats = NaN"
    by blast
next
  show "performance_stats [] (1 / 50) = Inl IndexError"
    using C8_summary [of "[]" "1 / 50" IndexError, THEN conjunct1] by simp
qed

end
